theory Spec2Isabelle
  imports
    Complex_Main
    "HOL-Library.Multiset"
    "HOL-Library.Char_ord"
    "HOL-Library.List_Lexorder"
    "HOL-Library.Product_Lexorder"
begin

section \<open>Embedding of the wind-farm twin\<close>

text \<open>
  Python floats are modelled as real numbers, so rounding and overflow are outside the
  model. A float that can be not-a-number (a recorded measurement) is a value of type
  \<open>measurement\<close>; the quotient of two float columns whose divisor can be zero, which
  pandas computes without a raise, is a value of type \<open>quotient\<close>, which has the
  infinities. A raise is a value \<open>Inl e\<close> of a sum type.
\<close>

datatype error =
    FileNotFoundError
  | ValueError string
  | KeyError string
  | ZeroDivisionError
  | WriteFailed

subsection \<open>models/farm\_layout.py\<close>

record Turbine =
  turbine_id :: string
  x_m :: real
  y_m :: real
  rated_power_kw :: real

record WindFarm =
  farm_id :: string
  turbines :: "Turbine list"

subsection \<open>models/turbine\_powercurve.py\<close>

record PowerCurve =
  cut_in_mps :: real
  rated_mps :: real
  cut_out_mps :: real

definition default_PowerCurve :: PowerCurve where
  "default_PowerCurve = \<lparr>cut_in_mps = 3, rated_mps = 12, cut_out_mps = 25\<rparr>"

text \<open>
  \<open>PowerCurve.power_kw\<close>. The division in the ramp branch is reached only with
  \<open>cut_in_mps \<le> v < rated_mps\<close>, so its divisor is never zero and no branch raises.
\<close>

definition PowerCurve_power_kw :: "PowerCurve \<Rightarrow> real \<Rightarrow> real \<Rightarrow> real \<times> string" where
  "PowerCurve_power_kw self wind_speed_mps rated_power =
     (let v = wind_speed_mps in
      if v \<ge> cut_out_mps self then (0, ''CUT_OUT'')
      else if v < cut_in_mps self then (0, ''STOPPED'')
      else if v < rated_mps self then
        (let x = (v - cut_in_mps self) / (rated_mps self - cut_in_mps self)
         in (rated_power * x ^ 3, ''RUNNING''))
      else (rated_power, ''RUNNING''))"

subsection \<open>models/wake\_model.py\<close>

definition unit_vector_from_direction_deg :: "real \<Rightarrow> real \<times> real" where
  "unit_vector_from_direction_deg direction_deg =
     (let theta = direction_deg * pi / 180 in (cos theta, sin theta))"

record WakeModel =
  wake_strength :: real
  decay_length_m :: real
  crosswind_sigma_m :: real

definition default_WakeModel :: WakeModel where
  "default_WakeModel = \<lparr>wake_strength = 15 / 100, decay_length_m = 800, crosswind_sigma_m = 200\<rparr>"

text \<open>
  The wake model \<open>run_scenario\<close> of main.py builds from a \<open>ScenarioConfig\<close>: decay
  length 900 and crosswind width 250, and the wake strength of the scenario, which is 0.12
  for SIM-A and 0.25 for SIM-B.
\<close>

definition scenario_WakeModel :: "real \<Rightarrow> WakeModel" where
  "scenario_WakeModel strength =
     \<lparr>wake_strength = strength, decay_length_m = 900, crosswind_sigma_m = 250\<rparr>"

definition scenario_B_WakeModel :: WakeModel where
  "scenario_B_WakeModel = scenario_WakeModel (25 / 100)"

text \<open>Python's float division raises on a zero divisor.\<close>

definition py_div :: "real \<Rightarrow> real \<Rightarrow> error + real" where
  "py_div a b = (if b = 0 then Inl ZeroDivisionError else Inr (a / b))"

text \<open>
  One pass of the loop body of \<open>WakeModel.effective_speed\<close> for the source \<open>src\<close>:
  the new value of \<open>total_factor\<close>, or the error raised.
\<close>

definition wake_body ::
  "WakeModel \<Rightarrow> real \<times> real \<Rightarrow> Turbine \<Rightarrow> real \<Rightarrow> Turbine \<Rightarrow> error + real" where
  "wake_body self u target total_factor src =
     (let (ux, uy) = u in
      if Turbine.turbine_id src = Turbine.turbine_id target then Inr total_factor
      else
        let dx = x_m target - x_m src;
            dy = y_m target - y_m src;
            downwind = dx * ux + dy * uy;
            crosswind = \<bar>- dx * uy + dy * ux\<bar>
        in if downwind \<le> 0 then Inr total_factor
           else
             case py_div (- (crosswind ^ 2)) (2 * (crosswind_sigma_m self ^ 2)) of
               Inl e \<Rightarrow> Inl e
             | Inr a \<Rightarrow>
                 (case py_div (- downwind) (decay_length_m self) of
                    Inl e \<Rightarrow> Inl e
                  | Inr b \<Rightarrow>
                      (let cross_factor = exp a;
                           dist_factor = exp b;
                           loss = wake_strength self * cross_factor * dist_factor
                       in Inr (total_factor * (1 - loss)))))"

fun wake_loop ::
  "WakeModel \<Rightarrow> real \<times> real \<Rightarrow> Turbine \<Rightarrow> real \<Rightarrow> Turbine list \<Rightarrow> error + real" where
  "wake_loop self u target total_factor [] = Inr total_factor"
| "wake_loop self u target total_factor (src # rest) =
     (case wake_body self u target total_factor src of
        Inl e \<Rightarrow> Inl e
      | Inr t \<Rightarrow> wake_loop self u target t rest)"

definition WakeModel_effective_speed ::
  "WakeModel \<Rightarrow> real \<Rightarrow> real \<Rightarrow> Turbine \<Rightarrow> Turbine list \<Rightarrow> error + real" where
  "WakeModel_effective_speed self free_speed_mps wind_dir_deg target ts =
     (let u = unit_vector_from_direction_deg wind_dir_deg;
          v = free_speed_mps
      in case wake_loop self u target 1 ts of
           Inl e \<Rightarrow> Inl e
         | Inr total_factor \<Rightarrow> Inr (max 0 (v * total_factor)))"

subsection \<open>io/schemas.py, io/silver\_schema.py\<close>

text \<open>A float column value: not-a-number (a missing measurement) or a number.\<close>

datatype measurement = NaN | Val real

text \<open>Comparisons with not-a-number are false, as in Python and pandas.\<close>

fun isna :: "measurement \<Rightarrow> bool" where
  "isna NaN = True"
| "isna (Val x) = False"

fun m_less :: "measurement \<Rightarrow> real \<Rightarrow> bool" where
  "m_less NaN b = False"
| "m_less (Val x) b = (x < b)"

fun m_greater :: "measurement \<Rightarrow> real \<Rightarrow> bool" where
  "m_greater NaN b = False"
| "m_greater (Val x) b = (x > b)"

text \<open>
  A row of the raw schema \<open>telemetry_arrow_schema\<close>. A timestamp is a pandas
  timestamp: an integer count of nanoseconds since the epoch, UTC.
\<close>

record telemetry =
  event_time :: int
  farm_id :: string
  turbine_id :: string
  wind_speed_free_mps :: measurement
  wind_speed_mps :: measurement
  wind_dir_deg :: measurement
  power_kw :: measurement
  rotor_speed_rpm :: measurement
  yaw_deg :: measurement
  status :: string
  sim_run_id :: string
  ingest_time :: int
  source :: string

text \<open>A row of the curated schema \<open>silver_arrow_schema\<close>: the raw columns and three flags.\<close>

record curated = telemetry +
  is_duplicate :: bool
  has_range_violation :: bool
  range_violation_fields :: string

record TelemetryConstraints =
  wind_speed_range :: "real \<times> real"
  wind_dir_range :: "real \<times> real"
  rotor_rpm_range :: "real \<times> real"
  yaw_deg_range :: "real \<times> real"
  power_kw_range :: "real \<times> real"

definition default_TelemetryConstraints :: TelemetryConstraints where
  "default_TelemetryConstraints =
     \<lparr>wind_speed_range = (0, 60), wind_dir_range = (0, 360), rotor_rpm_range = (0, 30),
      yaw_deg_range = (0, 360), power_kw_range = (0, 10000)\<rparr>"

subsection \<open>Timestamps\<close>

text \<open>
  What pandas renders for \<open>strftime\<close> on a UTC timestamp: the proleptic Gregorian date
  of a day number counted from 1970-01-01, and decimal fields padded with zeros.
\<close>

definition civil_from_days :: "int \<Rightarrow> int \<times> int \<times> int" where
  "civil_from_days days =
     (let z = days + 719468;
          era = z div 146097;
          doe = z mod 146097;
          yoe = (doe - doe div 1460 + doe div 36524 - doe div 146096) div 365;
          doy = doe - (365 * yoe + yoe div 4 - yoe div 100);
          mp = (5 * doy + 2) div 153;
          d = doy - (153 * mp + 2) div 5 + 1;
          m = (if mp < 10 then mp + 3 else mp - 9);
          y = yoe + era * 400
      in (if m \<le> 2 then y + 1 else y, m, d))"

definition digit_char :: "nat \<Rightarrow> char" where
  "digit_char n = ''0123456789'' ! (n mod 10)"

definition two_digits :: "nat \<Rightarrow> string" where
  "two_digits n = [digit_char (n div 10), digit_char n]"

definition four_digits :: "nat \<Rightarrow> string" where
  "four_digits n = [digit_char (n div 1000), digit_char (n div 100), digit_char (n div 10), digit_char n]"

text \<open>\<open>dt.floor("ms")\<close>, \<open>dt.floor("h")\<close> and \<open>strftime("%Y-%m-%d")\<close> of a timestamp.\<close>

definition floor_ms :: "int \<Rightarrow> int" where
  "floor_ms t = (t div 1000000) * 1000000"

definition hour_floor :: "int \<Rightarrow> int" where
  "hour_floor t = (t div 3600000000000) * 3600000000000"

definition date_of :: "int \<Rightarrow> string" where
  "date_of t =
     (let (y, m, d) = civil_from_days (t div 86400000000000)
      in four_digits (nat y) @ ''-'' @ two_digits (nat m) @ ''-'' @ two_digits (nat d))"

text \<open>\<open>dt.floor("h").dt.strftime("%Y-%m-%dT%H:00:00Z")\<close> of a timestamp.\<close>

definition hour_key_of :: "int \<Rightarrow> string" where
  "hour_key_of t =
     (let h = t div 3600000000000
      in date_of (h * 3600000000000) @ ''T'' @ two_digits (nat (h mod 24)) @ '':00:00Z'')"

subsection \<open>The data lake: datasets and the state store (io/state.py)\<close>

text \<open>
  The table store (pyarrow) is an external collaborator. A dataset is a directory of
  files: a list of pairs of the path of a file below the dataset root and the rows the
  file holds, or \<open>None\<close> when the directory does not exist. A full read
  (\<open>ds.dataset(...).to_table()\<close>) returns the rows of the files taken in ascending
  order of their paths.
\<close>

type_synonym 'r dataset = "(string \<times> 'r list) list"

definition files_of :: "'r dataset option \<Rightarrow> 'r dataset" where
  "files_of ds = (case ds of None \<Rightarrow> [] | Some files \<Rightarrow> files)"

definition read_dataset :: "'r dataset option \<Rightarrow> 'r list" where
  "read_dataset ds = concat (map snd (sort_key fst (files_of ds)))"

definition mkdir :: "'r dataset option \<Rightarrow> 'r dataset option" where
  "mkdir ds = Some (files_of ds)"

text \<open>
  The hive directory of a partition, from the partition columns and their values, and the
  write of one file: a file already at the path is replaced, any other file is kept.
\<close>

definition hive_dir :: "(string \<times> string) list \<Rightarrow> string" where
  "hive_dir cols = concat (map (\<lambda>(col, v). col @ ''='' @ v @ ''/'') cols)"

fun put_file :: "string \<Rightarrow> 'r list \<Rightarrow> 'r dataset \<Rightarrow> 'r dataset" where
  "put_file path content [] = [(path, content)]"
| "put_file path content ((p, old) # files) =
     (if p = path then (p, content) # files else (p, old) # put_file path content files)"

text \<open>
  \<open>pq.write_to_dataset\<close> with \<open>partition_cols\<close>, a \<open>basename_template\<close> and
  \<open>existing_data_behavior="overwrite_or_ignore"\<close>. The table is split by the values of
  its partition columns; each part is written, in table order, as one file in the hive
  directory of its partition; the name of the file is the template with \<open>{i}\<close> replaced by
  0, whatever the directory holds. So a file that an earlier write left in the same
  directory under the same template is replaced, and files in other directories or under
  other names are kept. The call either returns, or raises after the first \<open>n\<close> rows of
  the table reached the store. \<open>dir_of\<close> gives the hive directory of a row and
  \<open>basename\<close> the file name. Not modelled: the escaping of characters in directory
  names, and the types that a read infers for partition values (every file holds its rows
  with all their columns).
\<close>

datatype write_outcome = Written | WriteFails nat

definition write_files :: "('r \<Rightarrow> string) \<Rightarrow> string \<Rightarrow> 'r list \<Rightarrow> 'r dataset \<Rightarrow> 'r dataset" where
  "write_files dir_of basename table files =
     fold (\<lambda>d. put_file (d @ basename) (filter (\<lambda>r. dir_of r = d) table))
       (remdups (map dir_of table)) files"

definition write_to_dataset ::
  "write_outcome \<Rightarrow> ('r \<Rightarrow> string) \<Rightarrow> string \<Rightarrow> 'r list \<Rightarrow> 'r dataset option
     \<Rightarrow> (error + unit) \<times> 'r dataset option" where
  "write_to_dataset w dir_of basename table ds =
     (case w of
        Written \<Rightarrow> (Inr (), Some (write_files dir_of basename table (files_of ds)))
      | WriteFails n \<Rightarrow>
          (Inl WriteFailed, Some (write_files dir_of basename (take n table) (files_of ds))))"

text \<open>
  A float that may be an infinity, and the division of two float columns in pandas: a
  zero divisor raises nothing and gives not-a-number for a zero dividend and an infinity
  otherwise, whose sign is that of the dividend, reversed when the divisor is the negative
  zero.
\<close>

datatype quotient = NotANumber | PlusInfinity | MinusInfinity | Finite real

definition float_div :: "real \<Rightarrow> real \<Rightarrow> bool \<Rightarrow> quotient" where
  "float_div a b negative_zero =
     (if b \<noteq> 0 then Finite (a / b)
      else if a = 0 then NotANumber
      else if (0 < a) \<noteq> negative_zero then PlusInfinity
      else MinusInfinity)"

text \<open>The rows of the two aggregated datasets, with every column the job writes.\<close>

record hourly_energy =
  sim_run_id :: string
  farm_id :: string
  turbine_id :: string
  hour :: int
  wind_speed_mps_avg :: measurement
  power_kw_avg :: measurement
  energy_kwh :: real
  downtime_minutes :: real
  bad_rows :: nat
  rows :: nat
  date :: string
  hour_key :: string
  process_key :: string

record farm_kpis =
  sim_run_id :: string
  farm_id :: string
  hour :: int
  farm_power_kw_avg :: measurement
  farm_energy_kwh :: real
  running_rows :: nat
  total_rows :: nat
  bad_rows :: nat
  avg_free_wind :: measurement
  avg_effective_wind :: measurement
  date :: string
  availability :: real
  avg_wake_loss_mps :: measurement
  bad_row_rate :: real
  n_turbines_est :: int
  capacity_factor :: quotient
  hour_key :: string
  process_key :: string

text \<open>
  \<open>StateStore\<close>: a named file holds a set of strings; \<open>load_set\<close> of a missing file is
  the empty set, \<open>save_set\<close> overwrites the file.
\<close>

record lake =
  bronze :: "telemetry dataset option"
  silver :: "curated dataset option"
  gold_hourly_energy :: "hourly_energy dataset option"
  gold_farm_kpis :: "farm_kpis dataset option"
  state_files :: "string \<rightharpoonup> string set"

definition load_set :: "lake \<Rightarrow> string \<Rightarrow> string set" where
  "load_set lk name = (case state_files lk name of None \<Rightarrow> {} | Some items \<Rightarrow> items)"

definition save_set :: "string \<Rightarrow> string set \<Rightarrow> lake \<Rightarrow> lake" where
  "save_set name items lk = lk\<lparr>state_files := (state_files lk)(name \<mapsto> items)\<rparr>"

subsection \<open>pipelines/silver\_job.py\<close>

record SilverJob =
  bronze_path :: string
  silver_path :: string
  constraints :: TelemetryConstraints
  state_name :: string

definition default_SilverJob :: SilverJob where
  "default_SilverJob =
     \<lparr>bronze_path = ''data_lake/bronze'', silver_path = ''data_lake/silver'',
      constraints = default_TelemetryConstraints, state_name = ''silver_processed_hours''\<rparr>"

text \<open>
  The column lookup \<open>df[col]\<close> for the names \<open>flag\<close> is called with. The frame that
  reaches \<open>_add_range_flags\<close> has every column of the schema, so the test
  \<open>col not in df.columns\<close> holds for no such name.
\<close>

definition numeric_column :: "string \<Rightarrow> (curated \<Rightarrow> measurement) option" where
  "numeric_column col =
     (if col = ''wind_speed_mps'' then Some wind_speed_mps
      else if col = ''wind_dir_deg'' then Some wind_dir_deg
      else if col = ''rotor_speed_rpm'' then Some rotor_speed_rpm
      else if col = ''yaw_deg'' then Some yaw_deg
      else if col = ''power_kw'' then Some power_kw
      else None)"

text \<open>The inner function \<open>flag\<close> of \<open>SilverJob._add_range_flags\<close>, one pass over the frame.\<close>

definition flag :: "string \<Rightarrow> real \<Rightarrow> real \<Rightarrow> curated list \<Rightarrow> curated list" where
  "flag col lo hi df =
     (case numeric_column col of
        None \<Rightarrow> df
      | Some get \<Rightarrow>
          (let bad = map (\<lambda>r. isna (get r) \<or> m_less (get r) lo \<or> m_greater (get r) hi) df
           in if list_ex (\<lambda>b. b) bad then
                map (\<lambda>(r, b).
                       if b then
                         (let existing = range_violation_fields r
                          in r\<lparr>has_range_violation := True,
                               range_violation_fields :=
                                 (if existing = [] then existing else existing @ '','') @ col\<rparr>)
                       else r)
                    (zip df bad)
              else df))"

definition add_range_flags :: "TelemetryConstraints \<Rightarrow> curated list \<Rightarrow> curated list" where
  "add_range_flags c df0 =
     (let df = map (\<lambda>r. r\<lparr>has_range_violation := False, range_violation_fields := []\<rparr>) df0;
          df = flag ''wind_speed_mps'' (fst (wind_speed_range c)) (snd (wind_speed_range c)) df;
          df = flag ''wind_dir_deg'' (fst (wind_dir_range c)) (snd (wind_dir_range c)) df;
          df = flag ''rotor_speed_rpm'' (fst (rotor_rpm_range c)) (snd (rotor_rpm_range c)) df;
          df = flag ''yaw_deg'' (fst (yaw_deg_range c)) (snd (yaw_deg_range c)) df;
          df = flag ''power_kw'' (fst (power_kw_range c)) (snd (power_kw_range c)) df
      in df)"

text \<open>The computed columns \<open>process_key\<close> and the sort and dedup key \<open>key_cols\<close>.\<close>

definition process_key_of :: "'a telemetry_scheme \<Rightarrow> string" where
  "process_key_of r =
     telemetry.sim_run_id r @ ''|'' @ telemetry.farm_id r @ ''|'' @ hour_key_of (event_time r)"

definition key_cols :: "'a telemetry_scheme \<Rightarrow> int \<times> string \<times> string" where
  "key_cols r = (event_time r, telemetry.farm_id r, telemetry.turbine_id r)"

text \<open>
  \<open>duplicated(keep="first")\<close> over a list of keys: a position is marked when its key
  occurs at an earlier position.
\<close>

fun duplicated_from :: "'k list \<Rightarrow> 'k list \<Rightarrow> bool list" where
  "duplicated_from seen [] = []"
| "duplicated_from seen (k # ks) = (k \<in> set seen) # duplicated_from (k # seen) ks"

definition duplicated :: "('r \<Rightarrow> 'k) \<Rightarrow> 'r list \<Rightarrow> bool list" where
  "duplicated key df = duplicated_from [] (map key df)"

definition drop_duplicates :: "('r \<Rightarrow> 'k) \<Rightarrow> 'r list \<Rightarrow> 'r list" where
  "drop_duplicates key df = map fst (filter (\<lambda>(r, d). \<not> d) (zip df (duplicated key df)))"

text \<open>
  \<open>sort_values\<close> on several columns is a stable sort by the column tuple, strings
  compared by code point.
\<close>

definition sort_values :: "('r \<Rightarrow> 'k :: linorder) \<Rightarrow> 'r list \<Rightarrow> 'r list" where
  "sort_values key df = sort_key key df"

text \<open>
  Lines 81 to 96 of \<open>SilverJob.run\<close>: from the new rows to the table that is written.
  The partition column \<open>date\<close> is a function of \<open>event_time\<close> and is not stored in
  the row.
\<close>

definition with_flags :: "telemetry \<Rightarrow> curated" where
  "with_flags r =
     telemetry.extend r
       (curated.fields False False [])"

definition mark_duplicates :: "curated list \<Rightarrow> curated list" where
  "mark_duplicates df = map (\<lambda>(r, d). r\<lparr>is_duplicate := d\<rparr>) (zip df (duplicated key_cols df))"

definition curate :: "TelemetryConstraints \<Rightarrow> telemetry list \<Rightarrow> curated list" where
  "curate c df_new =
     (let df = map with_flags df_new;
          df = sort_values key_cols df;
          df = mark_duplicates df;
          df = drop_duplicates key_cols df;
          df = add_range_flags c df
      in df)"

text \<open>Lines 62 and 63 of \<open>SilverJob.run\<close>: both timestamps floored to the millisecond.\<close>

definition normalize_timestamps :: "telemetry \<Rightarrow> telemetry" where
  "normalize_timestamps r =
     r\<lparr>event_time := floor_ms (event_time r), ingest_time := floor_ms (ingest_time r)\<rparr>"

text \<open>
  The directory of a curated row under \<open>partition_cols=["sim_run_id", "farm_id", "date"]\<close>.
\<close>

definition silver_partition :: "curated \<Rightarrow> string" where
  "silver_partition r =
     hive_dir [(''sim_run_id'', telemetry.sim_run_id r), (''farm_id'', telemetry.farm_id r),
               (''date'', date_of (event_time r))]"

definition SilverJob_run :: "SilverJob \<Rightarrow> write_outcome \<Rightarrow> lake \<Rightarrow> (error + string) \<times> lake" where
  "SilverJob_run self w lk =
     (if bronze lk = None then (Inl FileNotFoundError, lk)
      else
        let df = read_dataset (bronze lk)
        in if df = [] then (Inl (ValueError ''No data found in bronze.''), lk)
           else
             let df = map normalize_timestamps df;
                 processed = load_set lk (SilverJob.state_name self);
                 df_new = filter (\<lambda>r. process_key_of r \<notin> processed) df
             in if df_new = [] then (Inr (SilverJob.silver_path self), lk)
                else
                  let df = curate (constraints self) df_new;
                      (res, ds) = write_to_dataset w silver_partition ''part-0.parquet'' df
                                    (mkdir (silver lk));
                      lk = lk\<lparr>silver := ds\<rparr>
                  in case res of
                       Inl e \<Rightarrow> (Inl e, lk)
                     | Inr _ \<Rightarrow>
                         let processed = processed \<union> set (map process_key_of df);
                             lk = save_set (SilverJob.state_name self) processed lk
                         in (Inr (SilverJob.silver_path self), lk))"

subsection \<open>pipelines/gold\_job.py\<close>

record GoldJob =
  silver_path :: string
  gold_path :: string
  state_name :: string

definition default_GoldJob :: GoldJob where
  "default_GoldJob =
     \<lparr>GoldJob.silver_path = ''data_lake/silver'', gold_path = ''data_lake/gold'',
      GoldJob.state_name = ''gold_processed_hours''\<rparr>"

text \<open>
  The pandas reductions skip not-a-number: \<open>mean\<close> of no number is not-a-number,
  \<open>sum\<close> of no number is 0. Arithmetic on a column propagates not-a-number.
\<close>

definition numbers :: "measurement list \<Rightarrow> real list" where
  "numbers ms = concat (map (\<lambda>m. case m of NaN \<Rightarrow> [] | Val x \<Rightarrow> [x]) ms)"

definition mean :: "measurement list \<Rightarrow> measurement" where
  "mean ms = (let xs = numbers ms in if xs = [] then NaN else Val (sum_list xs / real (length xs)))"

definition sum_skipna :: "measurement list \<Rightarrow> real" where
  "sum_skipna ms = sum_list (numbers ms)"

fun m_times :: "measurement \<Rightarrow> real \<Rightarrow> measurement" where
  "m_times NaN c = NaN"
| "m_times (Val x) c = Val (x * c)"

fun m_minus :: "measurement \<Rightarrow> measurement \<Rightarrow> measurement" where
  "m_minus (Val x) (Val y) = Val (x - y)"
| "m_minus a b = NaN"

text \<open>
  \<open>groupby(keys, as_index=False)\<close>: one group for each distinct key, in ascending key
  order, holding the rows of that key in frame order.
\<close>

definition groupby :: "('r \<Rightarrow> 'k :: linorder) \<Rightarrow> 'r list \<Rightarrow> ('k \<times> 'r list) list" where
  "groupby key df = map (\<lambda>k. (k, filter (\<lambda>r. key r = k) df)) (sort (remdups (map key df)))"

definition hourly_energy_group ::
  "real \<Rightarrow> string \<times> string \<times> string \<times> int \<Rightarrow> curated list \<Rightarrow> hourly_energy" where
  "hourly_energy_group dt_seconds k g =
     (let (run, farm, turbine, h) = k;
          dt_hours = dt_seconds / 3600
      in \<lparr>hourly_energy.sim_run_id = run,
          hourly_energy.farm_id = farm,
          hourly_energy.turbine_id = turbine,
          hourly_energy.hour = h,
          wind_speed_mps_avg = mean (map wind_speed_mps g),
          power_kw_avg = mean (map power_kw g),
          energy_kwh = sum_skipna (map (\<lambda>r. m_times (power_kw r) dt_hours) g),
          downtime_minutes = real (length (filter (\<lambda>r. status r \<noteq> ''RUNNING'') g)) * (dt_seconds / 60),
          hourly_energy.bad_rows = length (filter has_range_violation g),
          rows = length g,
          hourly_energy.date = date_of h,
          hourly_energy.hour_key = hour_key_of h,
          hourly_energy.process_key = run @ ''|'' @ farm @ ''|'' @ hour_key_of h\<rparr>)"

definition hourly_energy_agg :: "real \<Rightarrow> curated list \<Rightarrow> hourly_energy list" where
  "hourly_energy_agg dt_seconds df =
     map (\<lambda>(k, g). hourly_energy_group dt_seconds k g)
       (groupby (\<lambda>r. (telemetry.sim_run_id r, telemetry.farm_id r, telemetry.turbine_id r,
                       hour_floor (event_time r))) df)"

text \<open>
  The directory of an aggregated row under
  \<open>partition_cols=["sim_run_id", "farm_id", "date"]\<close>.
\<close>

definition hourly_energy_partition :: "hourly_energy \<Rightarrow> string" where
  "hourly_energy_partition a =
     hive_dir [(''sim_run_id'', hourly_energy.sim_run_id a), (''farm_id'', hourly_energy.farm_id a),
               (''date'', hourly_energy.date a)]"

definition GoldJob_run_hourly_energy ::
  "GoldJob \<Rightarrow> real \<Rightarrow> write_outcome \<Rightarrow> lake \<Rightarrow> (error + string) \<times> lake" where
  "GoldJob_run_hourly_energy self dt_seconds w lk =
     (if silver lk = None then (Inl FileNotFoundError, lk)
      else
        let out_dir = gold_path self @ ''/hourly_energy'';
            lk = lk\<lparr>gold_hourly_energy := mkdir (gold_hourly_energy lk)\<rparr>;
            df = read_dataset (silver lk)
        in if df = [] then (Inr out_dir, lk)
           else
             let agg = hourly_energy_agg dt_seconds df;
                 processed = load_set lk (GoldJob.state_name self);
                 agg_new = filter (\<lambda>a. hourly_energy.process_key a \<notin> processed) agg
             in if agg_new = [] then (Inr out_dir, lk)
                else
                  let (res, ds) = write_to_dataset w hourly_energy_partition ''part-0.parquet'' agg_new
                                    (gold_hourly_energy lk);
                      lk = lk\<lparr>gold_hourly_energy := ds\<rparr>
                  in case res of
                       Inl e \<Rightarrow> (Inl e, lk)
                     | Inr _ \<Rightarrow>
                         let processed = processed \<union> set (map hourly_energy.process_key agg_new);
                             lk = save_set (GoldJob.state_name self) processed lk
                         in (Inr out_dir, lk))"

text \<open>Python's \<open>int\<close> of a float truncates towards zero; numpy's \<open>round\<close> rounds half to even.\<close>

definition py_int :: "real \<Rightarrow> int" where
  "py_int x = (if 0 \<le> x then \<lfloor>x\<rfloor> else \<lceil>x\<rceil>)"

definition round_half_even :: "real \<Rightarrow> int" where
  "round_half_even x =
     (let f = \<lfloor>x\<rfloor>; d = x - of_int f
      in if d < 1 / 2 then f else if 1 / 2 < d then f + 1 else if even f then f else f + 1)"

text \<open>
  A row of the farm rollup. The divisor of \<open>capacity_factor\<close> is the float product
  \<open>n_turbines_est * rated_power_kw * 1.0\<close>; when it is zero it is the negative zero
  exactly when one factor is zero and the other negative (a rated power of zero is taken
  to be the positive zero).
\<close>

definition farm_kpis_group ::
  "real \<Rightarrow> real \<Rightarrow> int \<Rightarrow> string \<times> string \<times> int \<Rightarrow> curated list \<Rightarrow> farm_kpis" where
  "farm_kpis_group dt_seconds rated_power rows_per_turbine_per_hour k g =
     (let (run, farm, h) = k;
          dt_hours = dt_seconds / 3600;
          energy = sum_skipna (map (\<lambda>r. m_times (power_kw r) dt_hours) g);
          running = length (filter (\<lambda>r. status r = ''RUNNING'') g);
          total = length g;
          bad = length (filter has_range_violation g);
          free = mean (map wind_speed_free_mps g);
          effective = mean (map wind_speed_mps g);
          n_est = round_half_even (real total / of_int rows_per_turbine_per_hour);
          capacity = of_int n_est * rated_power * 1
      in \<lparr>farm_kpis.sim_run_id = run,
          farm_kpis.farm_id = farm,
          farm_kpis.hour = h,
          farm_power_kw_avg = mean (map power_kw g),
          farm_energy_kwh = energy,
          running_rows = running,
          total_rows = total,
          farm_kpis.bad_rows = bad,
          avg_free_wind = free,
          avg_effective_wind = effective,
          farm_kpis.date = date_of h,
          availability = real running / real total,
          avg_wake_loss_mps = m_minus free effective,
          bad_row_rate = real bad / real total,
          n_turbines_est = n_est,
          capacity_factor =
            float_div energy capacity
              ((n_est = 0 \<and> rated_power < 0) \<or> (n_est < 0 \<and> rated_power = 0)),
          farm_kpis.hour_key = hour_key_of h,
          farm_kpis.process_key = run @ ''|'' @ farm @ ''|'' @ hour_key_of h\<rparr>)"

definition farm_kpis_agg :: "real \<Rightarrow> real \<Rightarrow> int \<Rightarrow> curated list \<Rightarrow> farm_kpis list" where
  "farm_kpis_agg dt_seconds rated_power rows_per_turbine_per_hour df =
     map (\<lambda>(k, g). farm_kpis_group dt_seconds rated_power rows_per_turbine_per_hour k g)
       (groupby (\<lambda>r. (telemetry.sim_run_id r, telemetry.farm_id r, hour_floor (event_time r))) df)"

text \<open>
  \<open>GoldJob.run_farm_kpis\<close>. \<open>int(3600 / dt_seconds)\<close> raises on a zero step; when it
  is 0 the row count divided by it is infinite and \<open>astype(int)\<close> raises. Both happen
  before the write.
\<close>

definition farm_kpis_partition :: "farm_kpis \<Rightarrow> string" where
  "farm_kpis_partition a =
     hive_dir [(''sim_run_id'', farm_kpis.sim_run_id a), (''farm_id'', farm_kpis.farm_id a),
               (''date'', farm_kpis.date a)]"

definition GoldJob_run_farm_kpis ::
  "GoldJob \<Rightarrow> real \<Rightarrow> real \<Rightarrow> write_outcome \<Rightarrow> lake \<Rightarrow> (error + string) \<times> lake" where
  "GoldJob_run_farm_kpis self dt_seconds rated_power w lk =
     (if silver lk = None then (Inl FileNotFoundError, lk)
      else
        let out_dir = gold_path self @ ''/farm_kpis'';
            lk = lk\<lparr>gold_farm_kpis := mkdir (gold_farm_kpis lk)\<rparr>;
            df = read_dataset (silver lk)
        in if df = [] then (Inr out_dir, lk)
           else
             case py_div 3600 dt_seconds of
               Inl e \<Rightarrow> (Inl e, lk)
             | Inr q \<Rightarrow>
                 let rows_per_turbine_per_hour = py_int q
                 in if rows_per_turbine_per_hour = 0
                    then (Inl (ValueError ''Cannot convert non-finite values (NA or inf) to integer''), lk)
                    else
                      let agg = farm_kpis_agg dt_seconds rated_power rows_per_turbine_per_hour df;
                          state_name = ''gold_farm_kpis_processed_hours'';
                          processed = load_set lk state_name;
                          agg_new = filter (\<lambda>a. farm_kpis.process_key a \<notin> processed) agg
                      in if agg_new = [] then (Inr out_dir, lk)
                         else
                           let (res, ds) = write_to_dataset w farm_kpis_partition ''part-0.parquet''
                                             agg_new (gold_farm_kpis lk);
                               lk = lk\<lparr>gold_farm_kpis := ds\<rparr>
                           in case res of
                                Inl e \<Rightarrow> (Inl e, lk)
                              | Inr _ \<Rightarrow>
                                  let processed = processed \<union> set (map farm_kpis.process_key agg_new);
                                      lk = save_set state_name processed lk
                                  in (Inr out_dir, lk))"

subsection \<open>io/bronze\_writer.py\<close>

text \<open>
  The frame handed to \<open>BronzeWriter.write\<close>: its column names and its rows. A row is
  typed as a raw record; the field of a column that the frame does not have is never read,
  because the method raises before it reads it.
\<close>

record frame =
  columns :: "string list"
  data :: "telemetry list"

record BronzeWriter =
  base_path :: string

definition frame_empty :: "frame \<Rightarrow> bool" where
  "frame_empty df \<longleftrightarrow> columns df = [] \<or> data df = []"

definition telemetry_cols :: "string list" where
  "telemetry_cols =
     [''event_time'', ''farm_id'', ''turbine_id'', ''wind_speed_free_mps'', ''wind_speed_mps'',
      ''wind_dir_deg'', ''power_kw'', ''rotor_speed_rpm'', ''yaw_deg'', ''status'', ''sim_run_id'',
      ''ingest_time'', ''source'']"

definition required :: "string list" where
  "required = [''event_time'', ''farm_id'', ''sim_run_id'', ''ingest_time'']"

text \<open>Python's \<open>repr\<close> of a list of strings, as it appears in the error messages.\<close>

fun str_join :: "string \<Rightarrow> string list \<Rightarrow> string" where
  "str_join sep [] = []"
| "str_join sep [x] = x"
| "str_join sep (x # y # ys) = x @ sep @ str_join sep (y # ys)"

definition py_repr_list :: "string list \<Rightarrow> string" where
  "py_repr_list cs = ''['' @ str_join '', '' (map (\<lambda>c. [CHR 0x27] @ c @ [CHR 0x27]) cs) @ '']''"

text \<open>
  The directory of a raw row under
  \<open>partition_cols=["sim_run_id", "farm_id", "date", "hour"]\<close>; the partition columns
  \<open>date\<close> and \<open>hour\<close> are functions of \<open>event_time\<close> and are not stored in the row.
\<close>

definition bronze_partition :: "telemetry \<Rightarrow> string" where
  "bronze_partition r =
     hive_dir [(''sim_run_id'', telemetry.sim_run_id r), (''farm_id'', telemetry.farm_id r),
               (''date'', date_of (event_time r)), (''hour'', hour_key_of (event_time r))]"

text \<open>
  \<open>BronzeWriter.write\<close>. \<open>uuid_hex\<close> is what \<open>uuid.uuid4().hex\<close> returns in the
  call: the files of the call are named \<open>part-<uuid_hex>-0.parquet\<close>, in the
  directories of the partitions of the table.
\<close>

definition BronzeWriter_write ::
  "BronzeWriter \<Rightarrow> string \<Rightarrow> frame \<Rightarrow> write_outcome \<Rightarrow> lake \<Rightarrow> (error + unit) \<times> lake" where
  "BronzeWriter_write self uuid_hex df w lk =
     (if frame_empty df then (Inl (ValueError ''BronzeWriter received empty dataframe''), lk)
      else
        let missing = filter (\<lambda>c. c \<notin> set (columns df)) required
        in if missing \<noteq> []
           then (Inl (ValueError (''Missing required columns: '' @ py_repr_list (sort missing))), lk)
           else
             let table = map normalize_timestamps (data df);
                 absent = filter (\<lambda>c. c \<notin> set (columns df)) telemetry_cols
             in if absent \<noteq> [] then (Inl (KeyError (py_repr_list absent @ '' not in index'')), lk)
                else
                  let (res, ds) = write_to_dataset w bronze_partition
                                    (''part-'' @ uuid_hex @ ''-0.parquet'') table (mkdir (bronze lk))
                  in (res, lk\<lparr>bronze := ds\<rparr>))"

subsection \<open>models/wind\_field.py\<close>

text \<open>
  numpy's random generator is an external library: its operations are parameters of the
  model. A generator state has type \<open>'g\<close>; a draw returns the value drawn and the next
  state. \<open>rng_choice n k\<close> draws \<open>k\<close> of the indices below \<open>n\<close> without replacement.
\<close>

record 'g numpy =
  default_rng :: "int \<Rightarrow> 'g"
  rng_normal :: "real \<Rightarrow> real \<Rightarrow> 'g \<Rightarrow> real \<times> 'g"
  rng_random :: "'g \<Rightarrow> real \<times> 'g"
  rng_choice :: "nat \<Rightarrow> nat \<Rightarrow> 'g \<Rightarrow> nat list \<times> 'g"

record 'g WindField =
  base_speed_mps :: real
  daily_variation_mps :: real
  spatial_variation_mps :: real
  noise_std_mps :: real
  base_dir_deg :: real
  dir_noise_std_deg :: real
  seed :: int
  rng :: 'g

definition WindField_post_init :: "'g numpy \<Rightarrow> 'g WindField \<Rightarrow> 'g WindField" where
  "WindField_post_init np self = self\<lparr>WindField.rng := default_rng np (WindField.seed self)\<rparr>"

text \<open>Python's \<open>%\<close> on floats with a positive divisor.\<close>

definition py_mod :: "real \<Rightarrow> real \<Rightarrow> real" where
  "py_mod a b = a - b * of_int \<lfloor>a / b\<rfloor>"

definition WindField_get_wind_at_turbine ::
  "'g numpy \<Rightarrow> 'g WindField \<Rightarrow> real \<Rightarrow> real \<Rightarrow> real \<Rightarrow> (real \<times> real) \<times> 'g WindField" where
  "WindField_get_wind_at_turbine np self t_seconds x y =
     (let daily_cycle = sin (2 * pi * (t_seconds / 3600) / 24);
          base = base_speed_mps self + daily_variation_mps self * daily_cycle;
          spacial_bias = spatial_variation_mps self * (5 / 10000 * x - 3 / 10000 * y);
          (noise, g) = rng_normal np 0 (noise_std_mps self) (WindField.rng self);
          speed = base + spacial_bias + noise;
          speed = max 0 speed;
          (dir_noise, g) = rng_normal np 0 (dir_noise_std_deg self) g;
          direction = base_dir_deg self + dir_noise;
          direction = py_mod direction 360
      in ((speed, direction), self\<lparr>WindField.rng := g\<rparr>))"

subsection \<open>sim/telemetry\_generator.py\<close>

record 'g TelemetryGenerator =
  farm :: WindFarm
  wind_field :: "'g WindField"
  power_curve :: PowerCurve
  wake_model :: "WakeModel option"
  sim_run_id :: string
  source :: string
  seed :: int
  rng :: 'g

definition TelemetryGenerator_post_init :: "'g numpy \<Rightarrow> 'g TelemetryGenerator \<Rightarrow> 'g TelemetryGenerator" where
  "TelemetryGenerator_post_init np self =
     self\<lparr>TelemetryGenerator.rng := default_rng np (TelemetryGenerator.seed self)\<rparr>"

text \<open>
  The wind speed the power curve is given: the wake model's effective speed when a wake
  model is set, the free-stream speed otherwise.
\<close>

definition effective_wind ::
  "'g TelemetryGenerator \<Rightarrow> Turbine \<Rightarrow> real \<Rightarrow> real \<Rightarrow> error + real" where
  "effective_wind self turb free_speed wind_dir =
     (case wake_model self of
        None \<Rightarrow> Inr free_speed
      | Some wm \<Rightarrow> WakeModel_effective_speed wm free_speed wind_dir turb (turbines (farm self)))"

text \<open>
  The body of the inner loop of \<open>TelemetryGenerator.generate\<close> after the wind field
  has been read: \<open>t\<close> is the event time, \<open>free_speed\<close> and \<open>wind_dir\<close> the wind at the
  turbine, \<open>r\<close> the uniform draw \<open>self.rng.random()\<close> (\<open>None\<close> when \<open>inject_issues\<close>
  is off and nothing is drawn), \<open>now\<close> the clock reading. The result is the row appended.
\<close>

definition telemetry_row ::
  "'g TelemetryGenerator \<Rightarrow> int \<Rightarrow> Turbine \<Rightarrow> real \<Rightarrow> real \<Rightarrow> real option \<Rightarrow> int \<Rightarrow> error + telemetry" where
  "telemetry_row self t turb free_speed wind_dir r now =
     (case effective_wind self turb free_speed wind_dir of
        Inl e \<Rightarrow> Inl e
      | Inr wind_speed \<Rightarrow>
          let (power, status) = PowerCurve_power_kw (power_curve self) wind_speed (rated_power_kw turb);
              rotor_rpm = (if status \<noteq> ''RUNNING'' then 0 else 6 + (min wind_speed 12 - 3) * (12 / 9));
              yaw = wind_dir;
              recorded = Val wind_speed;
              recorded = (case r of None \<Rightarrow> recorded
                          | Some r \<Rightarrow> if r < 2 / 1000 then NaN else recorded);
              recorded = (case r of None \<Rightarrow> recorded
                          | Some r \<Rightarrow> if 2 / 1000 \<le> r \<and> r < 4 / 1000 then Val (- 5) else recorded);
              power = (case r of None \<Rightarrow> power
                       | Some r \<Rightarrow> if 4 / 1000 \<le> r \<and> r < 55 / 10000 then 99999 else power)
          in Inr \<lparr>event_time = t,
                  telemetry.farm_id = WindFarm.farm_id (farm self),
                  telemetry.turbine_id = Turbine.turbine_id turb,
                  wind_speed_free_mps = Val free_speed,
                  wind_speed_mps = recorded,
                  wind_dir_deg = Val wind_dir,
                  power_kw = Val power,
                  rotor_speed_rpm = Val rotor_rpm,
                  yaw_deg = Val yaw,
                  status = status,
                  telemetry.sim_run_id = TelemetryGenerator.sim_run_id self,
                  ingest_time = now,
                  telemetry.source = TelemetryGenerator.source self\<rparr>)"

text \<open>A loop whose body may raise.\<close>

fun for_each :: "('s \<Rightarrow> 'a \<Rightarrow> error + 's) \<Rightarrow> 's \<Rightarrow> 'a list \<Rightarrow> error + 's" where
  "for_each body st [] = Inr st"
| "for_each body st (x # xs) = (case body st x of Inl e \<Rightarrow> Inl e | Inr st' \<Rightarrow> for_each body st' xs)"

text \<open>
  One pass of the inner loop: the wind field is read (two normal draws), the uniform draw is
  taken when issues are injected, and the row is appended. \<open>clock i\<close> is what
  \<open>datetime.now\<close> returns for the row with index \<open>i\<close>. In \<open>generate\<close> the rows
  drawn by \<open>rng_choice\<close> are appended once more; an index outside the frame, which numpy
  does not return, would make \<open>df.loc\<close> raise.
\<close>

definition generate_row ::
  "'g numpy \<Rightarrow> (nat \<Rightarrow> int) \<Rightarrow> int \<Rightarrow> int \<Rightarrow> bool \<Rightarrow> nat
     \<Rightarrow> 'g TelemetryGenerator \<times> telemetry list \<Rightarrow> Turbine
     \<Rightarrow> error + 'g TelemetryGenerator \<times> telemetry list" where
  "generate_row np clock start_time_utc dt_seconds inject_issues step st turb =
     (let (self, out_rows) = st;
          t = start_time_utc + int step * dt_seconds * 1000000000;
          t_seconds = of_int (int step * dt_seconds);
          ((free_speed, wind_dir), wfield) =
             WindField_get_wind_at_turbine np (wind_field self) t_seconds (x_m turb) (y_m turb);
          self = self\<lparr>wind_field := wfield\<rparr>;
          (r, self) = (if inject_issues
                       then (let (r, g) = rng_random np (TelemetryGenerator.rng self)
                             in (Some r, self\<lparr>TelemetryGenerator.rng := g\<rparr>))
                       else (None, self))
      in case telemetry_row self t turb free_speed wind_dir r (clock (length out_rows)) of
           Inl e \<Rightarrow> Inl e
         | Inr row \<Rightarrow> Inr (self, out_rows @ [row]))"

definition TelemetryGenerator_generate ::
  "'g numpy \<Rightarrow> (nat \<Rightarrow> int) \<Rightarrow> 'g TelemetryGenerator \<Rightarrow> int \<Rightarrow> real \<Rightarrow> int \<Rightarrow> bool
     \<Rightarrow> error + telemetry list \<times> 'g TelemetryGenerator" where
  "TelemetryGenerator_generate np clock self start_time_utc duration_hours dt_seconds inject_issues =
     (case py_div (duration_hours * 3600) (of_int dt_seconds) of
        Inl e \<Rightarrow> Inl e
      | Inr q \<Rightarrow>
          let n_steps = py_int q
          in case for_each
                    (\<lambda>st step.
                       for_each (generate_row np clock start_time_utc dt_seconds inject_issues step)
                         st (turbines (farm (fst st))))
                    (self, []) [0 ..< nat n_steps] of
               Inl e \<Rightarrow> Inl e
             | Inr (self, out_rows) \<Rightarrow>
                 if inject_issues \<and> length out_rows > 0 then
                   let dup_count = max 1 (py_int (2 / 1000 * real (length out_rows)));
                       (dup_idx, g) = rng_choice np (length out_rows) (nat dup_count) (TelemetryGenerator.rng self)
                   in if list_ex (\<lambda>i. length out_rows \<le> i) dup_idx
                      then Inl (KeyError ''not in index'')
                      else Inr (out_rows @ map (\<lambda>i. out_rows ! i) dup_idx, self\<lparr>TelemetryGenerator.rng := g\<rparr>)
                 else Inr (out_rows, self))"

subsection \<open>Reference formulations and auxiliary functions\<close>

text \<open>
  The reference wake formula, written from the specification's sentences: the downwind
  distance is the projection of the displacement onto the wind direction's unit vector,
  the crosswind offset the absolute perpendicular component; a source contributes only
  when it is another turbine with strictly positive downwind distance; the retained
  fraction is the product of \<open>1 - loss\<close> over the contributing sources.
\<close>

definition spec_downwind :: "real \<Rightarrow> Turbine \<Rightarrow> Turbine \<Rightarrow> real" where
  "spec_downwind dir target src =
     (x_m target - x_m src) * cos (dir * pi / 180) + (y_m target - y_m src) * sin (dir * pi / 180)"

definition spec_crosswind :: "real \<Rightarrow> Turbine \<Rightarrow> Turbine \<Rightarrow> real" where
  "spec_crosswind dir target src =
     \<bar>(y_m target - y_m src) * cos (dir * pi / 180) - (x_m target - x_m src) * sin (dir * pi / 180)\<bar>"

definition spec_contributes :: "real \<Rightarrow> Turbine \<Rightarrow> Turbine \<Rightarrow> bool" where
  "spec_contributes dir target src \<longleftrightarrow>
     Turbine.turbine_id src \<noteq> Turbine.turbine_id target \<and> 0 < spec_downwind dir target src"

definition spec_loss :: "WakeModel \<Rightarrow> real \<Rightarrow> Turbine \<Rightarrow> Turbine \<Rightarrow> real" where
  "spec_loss wm dir target src =
     wake_strength wm
       * exp (- (spec_crosswind dir target src ^ 2) / (2 * crosswind_sigma_m wm ^ 2))
       * exp (- spec_downwind dir target src / decay_length_m wm)"

definition spec_retained :: "WakeModel \<Rightarrow> real \<Rightarrow> Turbine \<Rightarrow> Turbine list \<Rightarrow> real" where
  "spec_retained wm dir target ts =
     prod_list (map (\<lambda>src. 1 - spec_loss wm dir target src) (filter (spec_contributes dir target) ts))"

definition spec_effective_speed :: "WakeModel \<Rightarrow> real \<Rightarrow> real \<Rightarrow> Turbine \<Rightarrow> Turbine list \<Rightarrow> real" where
  "spec_effective_speed wm free dir target ts = max 0 (free * spec_retained wm dir target ts)"

text \<open>The factors of the retained fraction, as a multiset over a multiset of sources.\<close>

definition factors :: "WakeModel \<Rightarrow> real \<Rightarrow> Turbine \<Rightarrow> Turbine multiset \<Rightarrow> real multiset" where
  "factors wm dir target M =
     image_mset (\<lambda>src. 1 - spec_loss wm dir target src) (filter_mset (spec_contributes dir target) M)"

text \<open>
  The range rule in the specification's words: a value violates its range when it is
  missing, below the low bound or above the high bound; the violating field names, in check
  order, are joined with commas.
\<close>

definition out_of_range :: "real \<times> real \<Rightarrow> measurement \<Rightarrow> bool" where
  "out_of_range bounds m = (case m of NaN \<Rightarrow> True | Val x \<Rightarrow> x < fst bounds \<or> snd bounds < x)"

definition range_checks :: "TelemetryConstraints \<Rightarrow> curated \<Rightarrow> (string \<times> bool) list" where
  "range_checks c r =
     [(''wind_speed_mps'', out_of_range (wind_speed_range c) (wind_speed_mps r)),
      (''wind_dir_deg'', out_of_range (wind_dir_range c) (wind_dir_deg r)),
      (''rotor_speed_rpm'', out_of_range (rotor_rpm_range c) (rotor_speed_rpm r)),
      (''yaw_deg'', out_of_range (yaw_deg_range c) (yaw_deg r)),
      (''power_kw'', out_of_range (power_kw_range c) (power_kw r))]"

definition flagged_fields :: "TelemetryConstraints \<Rightarrow> curated \<Rightarrow> string list" where
  "flagged_fields c r = map fst (filter snd (range_checks c r))"

fun comma_join :: "string list \<Rightarrow> string" where
  "comma_join [] = []"
| "comma_join [x] = x"
| "comma_join (x # y # ys) = x @ '','' @ comma_join (y # ys)"

text \<open>What one pass of \<open>flag\<close> does to a single row, and the result of the five passes.\<close>

definition flag_row :: "string \<Rightarrow> bool \<Rightarrow> curated \<Rightarrow> curated" where
  "flag_row col b r =
     (if b then r\<lparr>has_range_violation := True,
                 range_violation_fields :=
                   (if range_violation_fields r = [] then [] else range_violation_fields r @ '','') @ col\<rparr>
      else r)"

definition flag_result :: "TelemetryConstraints \<Rightarrow> curated \<Rightarrow> curated" where
  "flag_result c r =
     r\<lparr>has_range_violation := (flagged_fields c r \<noteq> []),
       range_violation_fields := comma_join (flagged_fields c r)\<rparr>"

text \<open>Keep-first deduplication, written as a recursion over the rows.\<close>

fun keep_first :: "('r \<Rightarrow> 'k) \<Rightarrow> 'k list \<Rightarrow> 'r list \<Rightarrow> 'r list" where
  "keep_first key seen [] = []"
| "keep_first key seen (x # xs) =
     (if key x \<in> set seen then keep_first key (key x # seen) xs
      else x # keep_first key (key x # seen) xs)"

text \<open>The table a run of each stage hands to \<open>write_to_dataset\<close>, and the keys of its rows.\<close>

definition silver_table :: "SilverJob \<Rightarrow> lake \<Rightarrow> curated list" where
  "silver_table self lk =
     curate (constraints self)
       (filter (\<lambda>r. process_key_of r \<notin> load_set lk (SilverJob.state_name self))
          (map normalize_timestamps (read_dataset (bronze lk))))"

definition hourly_energy_table :: "GoldJob \<Rightarrow> real \<Rightarrow> lake \<Rightarrow> hourly_energy list" where
  "hourly_energy_table self dt_seconds lk =
     filter (\<lambda>a. hourly_energy.process_key a \<notin> load_set lk (GoldJob.state_name self))
       (hourly_energy_agg dt_seconds (read_dataset (silver lk)))"

definition farm_kpis_table :: "real \<Rightarrow> real \<Rightarrow> lake \<Rightarrow> farm_kpis list" where
  "farm_kpis_table dt_seconds rated_power lk =
     filter (\<lambda>a. farm_kpis.process_key a \<notin> load_set lk ''gold_farm_kpis_processed_hours'')
       (farm_kpis_agg dt_seconds rated_power (py_int (3600 / dt_seconds)) (read_dataset (silver lk)))"

subsection \<open>Concrete inputs\<close>

text \<open>Two turbines of the default grid, 600 m apart along the x axis.\<close>

definition T001 :: Turbine where
  "T001 = \<lparr>Turbine.turbine_id = ''T001'', x_m = 0, y_m = 0, rated_power_kw = 2000\<rparr>"

definition T002 :: Turbine where
  "T002 = \<lparr>Turbine.turbine_id = ''T002'', x_m = 600, y_m = 0, rated_power_kw = 2000\<rparr>"

text \<open>
  Rows used as concrete inputs: a reading of turbine T001 of farm F001 at
  2026-01-05T00:00:00Z in run SIM-A, a second delivery of that reading with other values,
  the reading of run SIM-B for the same instant, and a reading one minute later.
\<close>

definition row_A :: telemetry where
  "row_A =
     \<lparr>event_time = 1767571200000000000, telemetry.farm_id = ''F001'', telemetry.turbine_id = ''T001'',
      wind_speed_free_mps = Val 8, wind_speed_mps = Val 8, wind_dir_deg = Val 220,
      power_kw = Val 350, rotor_speed_rpm = Val 12, yaw_deg = Val 220, status = ''RUNNING'',
      telemetry.sim_run_id = ''SIM-A'', ingest_time = 1767571260000000000,
      telemetry.source = ''simulator''\<rparr>"

definition row_A_again :: telemetry where
  "row_A_again = row_A\<lparr>wind_speed_mps := Val (- 5), ingest_time := 1767571290000000000\<rparr>"

definition row_B :: telemetry where
  "row_B = row_A\<lparr>wind_speed_mps := Val 7, power_kw := Val 250, telemetry.sim_run_id := ''SIM-B''\<rparr>"

definition row_later :: telemetry where
  "row_later = row_A\<lparr>event_time := 1767571260000000000, power_kw := Val 99999\<rparr>"

text \<open>
  A lake that holds the two same-instant readings of runs SIM-A and SIM-B as raw data, each
  in the file that the ingest of its run wrote.
\<close>

definition file_A :: string where
  "file_A = ''sim_run_id=SIM-A/farm_id=F001/date=2026-01-05/hour=2026-01-05T00:00:00Z/part-0a1b2c3d4e5f40718293a4b5c6d7e8f9-0.parquet''"

definition file_B :: string where
  "file_B = ''sim_run_id=SIM-B/farm_id=F001/date=2026-01-05/hour=2026-01-05T00:00:00Z/part-5e6f708192a34b4c8d9eafb0c1d2e3f4-0.parquet''"

definition lake_two_runs :: lake where
  "lake_two_runs =
     \<lparr>bronze = Some [(file_A, [row_A]), (file_B, [row_B])], silver = None,
      gold_hourly_energy = None, gold_farm_kpis = None, state_files = Map.empty\<rparr>"

definition lake_after_first_run :: lake where
  "lake_after_first_run = snd (SilverJob_run default_SilverJob Written lake_two_runs)"

text \<open>
  Three more lakes. One whose only raw bucket is already recorded as processed and whose
  curated directory is empty. One with a raw row, a curated file from an earlier write
  into the partition of that row, and no state files. One with the raw reading a minute
  later and, as curated and aggregated data, what the three stages wrote for the first
  reading.
\<close>

definition lake_quiet :: lake where
  "lake_quiet =
     \<lparr>bronze = Some [(file_A, [row_A])], silver = Some [], gold_hourly_energy = None,
      gold_farm_kpis = None,
      state_files = [''silver_processed_hours'' \<mapsto> {''SIM-A|F001|2026-01-05T00:00:00Z''}]\<rparr>"

definition lake_fresh :: lake where
  "lake_fresh =
     \<lparr>bronze = Some [(file_A, [row_A])],
      silver = Some [(''sim_run_id=SIM-A/farm_id=F001/date=2026-01-05/part-0.parquet'',
                      [with_flags row_later])],
      gold_hourly_energy = None, gold_farm_kpis = None, state_files = Map.empty\<rparr>"

text \<open>The value of \<open>uuid.uuid4().hex\<close> in a later ingest call.\<close>

definition sample_uuid :: string where
  "sample_uuid = ''7c8d9e0f1a2b4c3d8e4f5a6b7c8d9e0f''"

text \<open>Three frames: one without rows, one without the column ingest_time, one complete.\<close>

definition frame_no_rows :: frame where
  "frame_no_rows = \<lparr>columns = telemetry_cols, data = []\<rparr>"

definition frame_no_ingest_time :: frame where
  "frame_no_ingest_time =
     \<lparr>columns = [''event_time'', ''farm_id'', ''turbine_id'', ''sim_run_id''], data = [row_A]\<rparr>"

definition frame_full :: frame where
  "frame_full = \<lparr>columns = telemetry_cols, data = [row_A]\<rparr>"

text \<open>
  A stand-in for numpy in concrete runs: a generator state counts the draws, every normal
  draw returns its mean and every uniform draw returns 0.001. A generator over the two
  turbines T001 and T002 without a wake model, one whose wake model has crosswind width 0,
  and the row the first generator appends for T001 at time 0 without injection.
\<close>

definition counting_numpy :: "nat numpy" where
  "counting_numpy =
     \<lparr>default_rng = nat,
      rng_normal = (\<lambda>loc scale g. (loc, Suc g)),
      rng_random = (\<lambda>g. (1 / 1000, Suc g)),
      rng_choice = (\<lambda>n k g. (take k [0 ..< n], Suc g))\<rparr>"

definition fixed_clock :: "nat \<Rightarrow> int" where
  "fixed_clock i = 5"

definition sample_generator :: "nat TelemetryGenerator" where
  "sample_generator =
     \<lparr>farm = \<lparr>WindFarm.farm_id = ''F001'', turbines = [T001, T002]\<rparr>,
      wind_field =
        \<lparr>base_speed_mps = 8, daily_variation_mps = 4, spatial_variation_mps = 8 / 10,
         noise_std_mps = 16 / 10, base_dir_deg = 220, dir_noise_std_deg = 8,
         WindField.seed = 42, WindField.rng = 0\<rparr>,
      power_curve = default_PowerCurve,
      wake_model = None,
      TelemetryGenerator.sim_run_id = ''SIM-001'',
      TelemetryGenerator.source = ''simulator'',
      TelemetryGenerator.seed = 123,
      TelemetryGenerator.rng = 0\<rparr>"

definition zero_width_generator :: "nat TelemetryGenerator" where
  "zero_width_generator =
     sample_generator\<lparr>wake_model :=
       Some \<lparr>wake_strength = 15 / 100, decay_length_m = 800, crosswind_sigma_m = 0\<rparr>\<rparr>"

definition sample_row :: telemetry where
  "sample_row =
     \<lparr>event_time = 0, telemetry.farm_id = ''F001'', telemetry.turbine_id = ''T001'',
      wind_speed_free_mps = Val 8, wind_speed_mps = Val 8, wind_dir_deg = Val 220,
      power_kw = Val (250000 / 729), rotor_speed_rpm = Val (38 / 3), yaw_deg = Val 220,
      status = ''RUNNING'', telemetry.sim_run_id = ''SIM-001'', ingest_time = 5,
      telemetry.source = ''simulator''\<rparr>"

section \<open>Power curve\<close>

text \<open>
  C4. For every wind speed \<open>v\<close> and rated power \<open>P\<close>: at or above the cut-out speed
  \<open>power_kw\<close> returns (0, CUT_OUT), and at the cut-out speed itself it returns (0, CUT_OUT).
  On a curve whose thresholds are ordered, cut-in < rated \<le> cut-out, as the cubic ramp and
  the four cases of the piecewise function presuppose: below cut-in it returns (0, STOPPED);
  from cut-in up to rated it returns the cubic ramp with status RUNNING; from rated up to
  cut-out it returns (P, RUNNING); and at the cut-in speed itself it returns (0, RUNNING).
\<close>

theorem power_kw_piecewise:
  "(cut_out_mps pc \<le> v \<longrightarrow> PowerCurve_power_kw pc v P = (0, ''CUT_OUT''))
   \<and> PowerCurve_power_kw pc (cut_out_mps pc) P = (0, ''CUT_OUT'')
   \<and> (cut_in_mps pc < rated_mps pc \<and> rated_mps pc \<le> cut_out_mps pc \<longrightarrow>
        (v < cut_in_mps pc \<longrightarrow> PowerCurve_power_kw pc v P = (0, ''STOPPED''))
        \<and> (cut_in_mps pc \<le> v \<and> v < rated_mps pc \<longrightarrow>
             PowerCurve_power_kw pc v P =
               (P * ((v - cut_in_mps pc) / (rated_mps pc - cut_in_mps pc)) ^ 3, ''RUNNING''))
        \<and> (rated_mps pc \<le> v \<and> v < cut_out_mps pc \<longrightarrow>
             PowerCurve_power_kw pc v P = (P, ''RUNNING''))
        \<and> PowerCurve_power_kw pc (cut_in_mps pc) P = (0, ''RUNNING''))"
  by (auto simp: PowerCurve_power_kw_def Let_def)

theorem power_kw_piecewise_witness:
  "cut_in_mps default_PowerCurve < rated_mps default_PowerCurve
   \<and> rated_mps default_PowerCurve \<le> cut_out_mps default_PowerCurve
   \<and> PowerCurve_power_kw default_PowerCurve 3 2000 = (0, ''RUNNING'')
   \<and> PowerCurve_power_kw default_PowerCurve 2 2000 = (0, ''STOPPED'')
   \<and> PowerCurve_power_kw default_PowerCurve 6 2000 = (2000 * ((6 - 3) / (12 - 3)) ^ 3, ''RUNNING'')
   \<and> PowerCurve_power_kw default_PowerCurve 12 2000 = (2000, ''RUNNING'')
   \<and> PowerCurve_power_kw default_PowerCurve 25 2000 = (0, ''CUT_OUT'')"
  using power_kw_piecewise [of default_PowerCurve 3 2000]
    power_kw_piecewise [of default_PowerCurve 2 2000]
    power_kw_piecewise [of default_PowerCurve 6 2000]
    power_kw_piecewise [of default_PowerCurve 12 2000]
    power_kw_piecewise [of default_PowerCurve 25 2000]
  by (simp add: default_PowerCurve_def)

section \<open>Wake model\<close>


lemma wake_body_reference:
  assumes "crosswind_sigma_m wm \<noteq> 0" and "decay_length_m wm \<noteq> 0"
  shows "wake_body wm (unit_vector_from_direction_deg dir) target acc src =
           Inr (if spec_contributes dir target src then acc * (1 - spec_loss wm dir target src) else acc)"
proof -
  have cw: "\<bar>- (x_m target - x_m src) * sin (dir * pi / 180) + (y_m target - y_m src) * cos (dir * pi / 180)\<bar>
              = spec_crosswind dir target src"
    by (simp add: spec_crosswind_def algebra_simps)
  have dw: "(x_m target - x_m src) * cos (dir * pi / 180) + (y_m target - y_m src) * sin (dir * pi / 180)
              = spec_downwind dir target src"
    by (simp add: spec_downwind_def)
  show ?thesis
    unfolding wake_body_def unit_vector_from_direction_deg_def Let_def py_div_def
      prod.case cw dw spec_contributes_def spec_loss_def
    using assms by simp
qed

lemma wake_loop_reference:
  assumes "crosswind_sigma_m wm \<noteq> 0" and "decay_length_m wm \<noteq> 0"
  shows "wake_loop wm (unit_vector_from_direction_deg dir) target acc ts =
           Inr (acc * spec_retained wm dir target ts)"
proof (induction ts arbitrary: acc)
  case Nil
  show ?case by (simp add: spec_retained_def)
next
  case (Cons src rest)
  show ?case
    by (simp add: wake_body_reference [OF assms] Cons.IH spec_retained_def mult.assoc)
qed

lemma effective_speed_eq_spec:
  assumes "crosswind_sigma_m wm \<noteq> 0" and "decay_length_m wm \<noteq> 0"
  shows "WakeModel_effective_speed wm free dir target ts =
           Inr (spec_effective_speed wm free dir target ts)"
  by (simp add: WakeModel_effective_speed_def Let_def wake_loop_reference [OF assms]
      spec_effective_speed_def)

text \<open>
  C5. Where the reference formula is defined (neither the crosswind width nor the decay
  length is zero), \<open>WakeModel.effective_speed\<close> returns the reference value: only other
  turbines with strictly positive downwind distance contribute, each contributes the loss
  \<open>wake_strength * exp (- crosswind\<^sup>2 / (2 * sigma\<^sup>2)) * exp (- downwind / decay_length)\<close>,
  the retained fraction is the product of \<open>1 - loss\<close>, and the result is
  \<open>max 0 (free_speed * retained)\<close>.
\<close>

theorem effective_speed_reference:
  assumes "crosswind_sigma_m wm \<noteq> 0" and "decay_length_m wm \<noteq> 0"
  shows "WakeModel_effective_speed wm free dir target ts =
           Inr (max 0 (free * prod_list (map (\<lambda>src. 1 - spec_loss wm dir target src)
                                          (filter (spec_contributes dir target) ts))))"
  using effective_speed_eq_spec [OF assms, of free dir target ts]
  by (simp add: spec_effective_speed_def spec_retained_def)

lemma spec_loss_unit:
  assumes "0 \<le> wake_strength wm" "wake_strength wm \<le> 1" "0 < decay_length_m wm"
    and "spec_contributes dir target src"
  shows "0 \<le> spec_loss wm dir target src \<and> spec_loss wm dir target src \<le> 1"
proof -
  let ?a = "exp (- (spec_crosswind dir target src ^ 2) / (2 * crosswind_sigma_m wm ^ 2))"
  let ?b = "exp (- spec_downwind dir target src / decay_length_m wm)"
  have "- (spec_crosswind dir target src ^ 2) / (2 * crosswind_sigma_m wm ^ 2) \<le> 0"
    by (simp add: divide_nonpos_nonneg)
  then have a: "0 < ?a" "?a \<le> 1" by simp_all
  have "0 < spec_downwind dir target src"
    using assms(4) by (simp add: spec_contributes_def)
  then have "- spec_downwind dir target src / decay_length_m wm \<le> 0"
    using assms(3) by (simp add: divide_nonpos_nonneg)
  then have b: "0 < ?b" "?b \<le> 1" by simp_all
  have ab: "0 \<le> ?a * ?b" "?a * ?b \<le> 1"
    using a b by (simp_all add: mult_le_one)
  have "wake_strength wm * (?a * ?b) \<le> 1"
    using assms(1,2) ab by (simp add: mult_le_one)
  moreover have "0 \<le> wake_strength wm * (?a * ?b)"
    using assms(1) ab by simp
  ultimately show ?thesis
    by (simp add: spec_loss_def mult.assoc)
qed

lemma prod_mset_unit:
  fixes M :: "real multiset"
  assumes "\<forall>x \<in># M. 0 \<le> x \<and> x \<le> 1"
  shows "0 \<le> prod_mset M \<and> prod_mset M \<le> 1"
  using assms by (induction M) (auto simp: mult_le_one)

lemma spec_retained_mset:
  "spec_retained wm dir target ts = prod_mset (factors wm dir target (mset ts))"
  by (simp add: spec_retained_def factors_def flip: prod_mset_prod_list)


lemma factors_unit:
  assumes "0 \<le> wake_strength wm" "wake_strength wm \<le> 1" "0 < decay_length_m wm"
  shows "0 \<le> prod_mset (factors wm dir target M) \<and> prod_mset (factors wm dir target M) \<le> 1"
proof (rule prod_mset_unit, rule ballI)
  fix x assume "x \<in># factors wm dir target M"
  then obtain src where "spec_contributes dir target src" and x: "x = 1 - spec_loss wm dir target src"
    by (auto simp: factors_def)
  with spec_loss_unit [OF assms, of dir target src] show "0 \<le> x \<and> x \<le> 1"
    by simp
qed

lemma spec_retained_mono:
  assumes "0 \<le> wake_strength wm" "wake_strength wm \<le> 1" "0 < decay_length_m wm"
    and sub: "mset S \<subseteq># mset S'"
  shows "0 \<le> spec_retained wm dir target S'
         \<and> spec_retained wm dir target S' \<le> spec_retained wm dir target S"
proof -
  obtain D where D: "mset S' = mset S + D"
    using sub by (auto simp: mset_subset_eq_exists_conv)
  let ?p = "prod_mset (factors wm dir target (mset S))"
  let ?q = "prod_mset (factors wm dir target D)"
  have p: "0 \<le> ?p" and q: "0 \<le> ?q" "?q \<le> 1"
    using factors_unit [OF assms(1-3)] by simp_all
  have eq: "spec_retained wm dir target S' = ?p * ?q"
    by (simp add: spec_retained_mset D factors_def)
  have le: "?p * ?q \<le> ?p * 1"
    using p q by (intro mult_left_mono) simp_all
  have "0 \<le> ?p * ?q" using p q by simp
  moreover have "?p * ?q \<le> spec_retained wm dir target S"
    using le by (simp add: spec_retained_mset)
  ultimately show ?thesis
    unfolding eq by simp
qed

lemma clamp_mono:
  fixes v r r' :: real
  assumes "0 \<le> r'" "r' \<le> r"
  shows "max 0 (v * r') \<le> max 0 (v * r)"
proof (cases "0 \<le> v")
  case True
  then have "v * r' \<le> v * r" using assms by (intro mult_left_mono) simp_all
  then show ?thesis by simp
next
  case False
  then have "v * r' \<le> 0" using assms by (simp add: mult_le_0_iff)
  then show ?thesis by simp
qed

text \<open>
  C6. Adding sources never increases the effective speed. For a wake model whose loss is a
  fraction (wake strength in [0, 1], positive decay length) and whose crosswind width is
  not zero, as every model the program builds is, for every free-stream speed, wind
  direction and target turbine, and for turbine collections S and S' where S' holds every
  entry of S: both calls return, and the effective speed over S' is at most the effective
  speed over S.
\<close>

theorem effective_speed_monotone:
  assumes "0 \<le> wake_strength wm" "wake_strength wm \<le> 1" "0 < decay_length_m wm"
    and "crosswind_sigma_m wm \<noteq> 0"
    and "mset S \<subseteq># mset S'"
  shows "\<exists>a b. WakeModel_effective_speed wm free dir target S = Inr a
               \<and> WakeModel_effective_speed wm free dir target S' = Inr b \<and> b \<le> a"
proof -
  have nz: "decay_length_m wm \<noteq> 0" using assms(3) by simp
  have "spec_effective_speed wm free dir target S' \<le> spec_effective_speed wm free dir target S"
    unfolding spec_effective_speed_def
    using spec_retained_mono [OF assms(1-3) assms(5), of dir target]
    by (intro clamp_mono) simp_all
  then show ?thesis
    by (simp add: effective_speed_eq_spec [OF assms(4) nz])
qed


theorem effective_speed_reference_witness:
  "crosswind_sigma_m default_WakeModel \<noteq> 0 \<and> decay_length_m default_WakeModel \<noteq> 0
   \<and> WakeModel_effective_speed default_WakeModel 10 0 T002 [T001, T002] =
       Inr (max 0 (10 * (1 - 15 / 100 * exp (- (3 / 4)))))"
  using effective_speed_reference [of default_WakeModel 10 0 T002 "[T001, T002]"]
  by (simp add: default_WakeModel_def T001_def T002_def
      spec_contributes_def spec_loss_def spec_downwind_def spec_crosswind_def)

theorem effective_speed_monotone_witness:
  "0 \<le> wake_strength scenario_B_WakeModel \<and> wake_strength scenario_B_WakeModel \<le> 1
   \<and> 0 < decay_length_m scenario_B_WakeModel \<and> crosswind_sigma_m scenario_B_WakeModel \<noteq> 0
   \<and> mset [T002] \<subseteq># mset [T001, T002]
   \<and> (\<exists>a b. WakeModel_effective_speed scenario_B_WakeModel 10 0 T002 [T002] = Inr a
              \<and> WakeModel_effective_speed scenario_B_WakeModel 10 0 T002 [T001, T002] = Inr b \<and> b \<le> a)
   \<and> (\<exists>a b. WakeModel_effective_speed default_WakeModel 10 0 T002 [T002] = Inr a
              \<and> WakeModel_effective_speed default_WakeModel 10 0 T002 [T001, T002] = Inr b \<and> b \<le> a)"
proof -
  have sub: "mset [T002] \<subseteq># mset [T001, T002]" by simp
  show ?thesis
    using sub effective_speed_monotone [of scenario_B_WakeModel "[T002]" "[T001, T002]" 10 0 T002]
      effective_speed_monotone [of default_WakeModel "[T002]" "[T001, T002]" 10 0 T002]
    by (simp add: default_WakeModel_def scenario_B_WakeModel_def scenario_WakeModel_def)
qed

section \<open>Curation: range flags and deduplication\<close>

lemma map_zip_self: "map (\<lambda>(r, b). g r b) (zip df (map f df)) = map (\<lambda>r. g r (f r)) df"
  by (induction df) simp_all

lemma bad_iff_out_of_range: "(isna m \<or> m_less m lo \<or> m_greater m hi) = out_of_range (lo, hi) m"
  by (cases m) (auto simp: out_of_range_def)

lemma flag_rowwise:
  assumes "numeric_column col = Some get"
  shows "flag col lo hi df = map (\<lambda>r. flag_row col (out_of_range (lo, hi) (get r)) r) df"
proof (cases "list_ex (\<lambda>b. b) (map (\<lambda>r. out_of_range (lo, hi) (get r)) df)")
  case True
  then show ?thesis
    by (simp add: flag_def assms bad_iff_out_of_range map_zip_self flag_row_def Let_def cong: if_cong)
next
  case False
  then have "\<forall>r \<in> set df. \<not> out_of_range (lo, hi) (get r)"
    by (simp add: list_ex_iff)
  then have "map (\<lambda>r. flag_row col (out_of_range (lo, hi) (get r)) r) df = df"
    by (simp add: flag_row_def map_idI)
  with False show ?thesis
    by (simp add: flag_def assms bad_iff_out_of_range)
qed

lemma five_flags_row:
  fixes r :: curated
  shows "flag_row ''power_kw'' b5
          (flag_row ''yaw_deg'' b4
            (flag_row ''rotor_speed_rpm'' b3
              (flag_row ''wind_dir_deg'' b2
                (flag_row ''wind_speed_mps'' b1
                  (r\<lparr>has_range_violation := False, range_violation_fields := []\<rparr>)))))
         = r\<lparr>has_range_violation := (b1 \<or> b2 \<or> b3 \<or> b4 \<or> b5),
             range_violation_fields :=
               comma_join (map fst (filter snd
                 [(''wind_speed_mps'', b1), (''wind_dir_deg'', b2), (''rotor_speed_rpm'', b3),
                  (''yaw_deg'', b4), (''power_kw'', b5)]))\<rparr>"
  by (cases b1; cases b2; cases b3; cases b4; cases b5) (simp_all add: flag_row_def)

lemma flag_row_frame:
  "wind_speed_mps (flag_row col b r) = wind_speed_mps r"
  "wind_dir_deg (flag_row col b r) = wind_dir_deg r"
  "rotor_speed_rpm (flag_row col b r) = rotor_speed_rpm r"
  "yaw_deg (flag_row col b r) = yaw_deg r"
  "power_kw (flag_row col b r) = power_kw r"
  by (simp_all add: flag_row_def)

lemma add_range_flags_rowwise: "add_range_flags c df = map (flag_result c) df"
proof -
  have cols: "numeric_column ''wind_speed_mps'' = Some wind_speed_mps"
    "numeric_column ''wind_dir_deg'' = Some wind_dir_deg"
    "numeric_column ''rotor_speed_rpm'' = Some rotor_speed_rpm"
    "numeric_column ''yaw_deg'' = Some yaw_deg"
    "numeric_column ''power_kw'' = Some power_kw"
    by (simp_all add: numeric_column_def)
  have row: "flag_result c r =
      flag_row ''power_kw'' (out_of_range (power_kw_range c) (power_kw r))
          (flag_row ''yaw_deg'' (out_of_range (yaw_deg_range c) (yaw_deg r))
            (flag_row ''rotor_speed_rpm'' (out_of_range (rotor_rpm_range c) (rotor_speed_rpm r))
              (flag_row ''wind_dir_deg'' (out_of_range (wind_dir_range c) (wind_dir_deg r))
                (flag_row ''wind_speed_mps'' (out_of_range (wind_speed_range c) (wind_speed_mps r))
                  (r\<lparr>has_range_violation := False, range_violation_fields := []\<rparr>)))))" for r
    unfolding five_flags_row
    by (auto simp: flag_result_def flagged_fields_def range_checks_def)
  show ?thesis
    unfolding add_range_flags_def Let_def
    by (simp add: flag_rowwise [OF cols(1)] flag_rowwise [OF cols(2)] flag_rowwise [OF cols(3)]
        flag_rowwise [OF cols(4)] flag_rowwise [OF cols(5)] o_def flag_row_frame row)
qed

lemma length_duplicated_from [simp]: "length (duplicated_from seen ks) = length ks"
  by (induction ks arbitrary: seen) simp_all

lemma nth_duplicated_from:
  "i < length ks \<Longrightarrow> duplicated_from seen ks ! i \<longleftrightarrow> ks ! i \<in> set seen \<union> set (take i ks)"
proof (induction ks arbitrary: seen i)
  case Nil
  then show ?case by simp
next
  case (Cons k ks)
  show ?case
  proof (cases i)
    case 0
    then show ?thesis by simp
  next
    case (Suc j)
    with Cons.prems have "j < length ks" by simp
    from Cons.IH [OF this, of "k # seen"] Suc show ?thesis by auto
  qed
qed

lemma drop_duplicates_from:
  "map fst (filter (\<lambda>(r, d). \<not> d) (zip xs (duplicated_from seen (map key xs)))) = keep_first key seen xs"
  by (induction xs arbitrary: seen) simp_all

lemma drop_duplicates_keep_first: "drop_duplicates key xs = keep_first key [] xs"
  by (simp add: drop_duplicates_def duplicated_def drop_duplicates_from)

lemma filter_keep_first:
  "filter (\<lambda>r. key r = k) (keep_first key seen xs) =
     (if k \<in> set seen then [] else take 1 (filter (\<lambda>r. key r = k) xs))"
proof (induction xs arbitrary: seen)
  case Nil
  show ?case by simp
next
  case (Cons x xs)
  show ?case by (auto simp: Cons.IH)
qed

lemma set_keep_first_subset: "set (keep_first key seen xs) \<subseteq> set xs"
  by (induction xs arbitrary: seen) auto

lemma sorted_keep_first:
  "sorted (map key xs) \<Longrightarrow> sorted (map key (keep_first key seen xs))"
proof (induction xs arbitrary: seen)
  case Nil
  show ?case by simp
next
  case (Cons x xs)
  then have "sorted (map key (keep_first key (key x # seen) xs))" by simp
  moreover have "\<forall>y \<in> set (keep_first key (key x # seen) xs). key x \<le> key y"
    using Cons.prems set_keep_first_subset [of key "key x # seen" xs] by auto
  ultimately show ?case by simp
qed

lemma distinct_keep_first:
  "distinct (map key (keep_first key seen xs)) \<and> set (map key (keep_first key seen xs)) \<inter> set seen = {}"
proof (induction xs arbitrary: seen)
  case Nil
  show ?case by simp
next
  case (Cons x xs)
  from Cons.IH [of "key x # seen"] show ?case by auto
qed

lemma keys_keep_first:
  "set (map key (keep_first key seen xs)) = set (map key xs) - set seen"
proof (induction xs arbitrary: seen)
  case Nil
  show ?case by simp
next
  case (Cons x xs)
  from Cons.IH [of "key x # seen"] show ?case by auto
qed

lemma take1_filter_find:
  "find P xs = Some x \<Longrightarrow> take 1 (filter P xs) = [x]"
  by (induction xs) (auto split: if_splits)

lemma key_cols_marked [simp]: "key_cols (r\<lparr>is_duplicate := d\<rparr>) = key_cols r"
  by (simp add: key_cols_def)

lemma key_cols_flags [simp]:
  "key_cols (flag_result c r) = key_cols r"
  "key_cols (with_flags x) = key_cols x"
  by (simp_all add: key_cols_def flag_result_def with_flags_def telemetry.defs)

lemma truncate_curated [simp]:
  "telemetry.truncate (flag_result c (with_flags x)) = x"
  "is_duplicate (flag_result c (with_flags x)) = False"
  by (simp_all add: flag_result_def with_flags_def telemetry.defs curated.defs)

lemma mark_duplicates_keys: "map key_cols (mark_duplicates df) = map key_cols df"
proof -
  have "map key_cols (mark_duplicates df) = map (key_cols \<circ> fst) (zip df (duplicated key_cols df))"
    by (simp add: mark_duplicates_def split_def o_def)
  also have "\<dots> = map key_cols (map fst (zip df (duplicated key_cols df)))"
    by simp
  also have "\<dots> = map key_cols df"
    by (simp add: duplicated_def)
  finally show ?thesis .
qed

lemma keep_first_marked:
  "keep_first key_cols seen
     (map (\<lambda>(r, d). r\<lparr>is_duplicate := d\<rparr>) (zip xs (duplicated_from seen (map key_cols xs))))
   = map (\<lambda>r. r\<lparr>is_duplicate := False\<rparr>) (keep_first key_cols seen xs)"
  by (induction xs arbitrary: seen) simp_all

lemma filter_marked:
  "filter (\<lambda>r. \<not> is_duplicate r)
     (map (\<lambda>(r, d). r\<lparr>is_duplicate := d\<rparr>) (zip xs (duplicated_from seen (map key_cols xs))))
   = map (\<lambda>r. r\<lparr>is_duplicate := False\<rparr>) (keep_first key_cols seen xs)"
  by (induction xs arbitrary: seen) simp_all

lemma dedup_keep_first:
  "drop_duplicates key_cols (mark_duplicates df)
     = map (\<lambda>r. r\<lparr>is_duplicate := False\<rparr>) (keep_first key_cols [] df)"
proof -
  have "drop_duplicates key_cols (mark_duplicates df) = keep_first key_cols [] (mark_duplicates df)"
    by (rule drop_duplicates_keep_first)
  also have "\<dots> = map (\<lambda>r. r\<lparr>is_duplicate := False\<rparr>) (keep_first key_cols [] df)"
    by (simp add: mark_duplicates_def duplicated_def keep_first_marked)
  finally show ?thesis .
qed

lemma dedup_filter:
  "drop_duplicates key_cols (mark_duplicates df) = filter (\<lambda>r. \<not> is_duplicate r) (mark_duplicates df)"
  by (simp add: dedup_keep_first) (simp add: mark_duplicates_def duplicated_def filter_marked)

lemma unmarked_id:
  assumes "\<forall>r \<in> set xs. \<not> is_duplicate r"
  shows "map (\<lambda>r. r\<lparr>is_duplicate := False\<rparr>) xs = xs"
proof (rule map_idI)
  fix r assume "r \<in> set xs"
  then have "is_duplicate r = False" using assms by simp
  then show "r\<lparr>is_duplicate := False\<rparr> = r" by (cases r) simp
qed

lemma curate_keep_first:
  "curate c batch = map (flag_result c) (keep_first key_cols [] (sort_key key_cols (map with_flags batch)))"
proof -
  let ?s = "sort_key key_cols (map with_flags batch)"
  have "\<forall>r \<in> set (keep_first key_cols [] ?s). \<not> is_duplicate r"
    using set_keep_first_subset [of key_cols "[]" ?s]
    by (auto simp: with_flags_def telemetry.defs curated.defs)
  then have id: "map (\<lambda>r. r\<lparr>is_duplicate := False\<rparr>) (keep_first key_cols [] ?s) = keep_first key_cols [] ?s"
    by (rule unmarked_id)
  have "curate c batch = map (flag_result c) (map (\<lambda>r. r\<lparr>is_duplicate := False\<rparr>) (keep_first key_cols [] ?s))"
    by (simp only: curate_def Let_def sort_values_def dedup_keep_first add_range_flags_rowwise)
  then show ?thesis
    by (simp only: id)
qed

lemma curate_filter_key:
  "filter (\<lambda>r. key_cols r = k) (curate c batch)
     = map (\<lambda>x. flag_result c (with_flags x)) (take 1 (filter (\<lambda>x. key_cols x = k) batch))"
  by (simp add: curate_keep_first filter_map o_def filter_keep_first sort_key_stable take_map)

lemma curate_sorted: "sorted_wrt (<) (map key_cols (curate c batch))"
proof -
  let ?s = "sort_key key_cols (map with_flags batch)"
  have "sorted (map key_cols (keep_first key_cols [] ?s))"
    by (rule sorted_keep_first) simp
  moreover have "distinct (map key_cols (keep_first key_cols [] ?s))"
    using distinct_keep_first [of key_cols "[]" ?s] by simp
  ultimately show ?thesis
    by (simp add: curate_keep_first o_def strict_sorted_iff)
qed

lemma curate_keys: "set (map key_cols (curate c batch)) = set (map key_cols batch)"
proof -
  let ?s = "sort_key key_cols (map with_flags batch)"
  have "set (map key_cols (curate c batch)) = set (map key_cols (keep_first key_cols [] ?s))"
    by (simp add: curate_keep_first o_def)
  also have "\<dots> = set (map key_cols ?s)"
    using keys_keep_first [of key_cols "[]" ?s] by simp
  also have "\<dots> = set (map key_cols batch)"
    by (simp add: image_image)
  finally show ?thesis .
qed

lemma mark_duplicates_nth:
  assumes "i < length df"
  shows "is_duplicate (mark_duplicates df ! i) \<longleftrightarrow> (\<exists>j < i. key_cols (df ! j) = key_cols (df ! i))"
proof -
  have "is_duplicate (mark_duplicates df ! i) = duplicated key_cols df ! i"
    using assms by (simp add: mark_duplicates_def duplicated_def)
  also have "\<dots> \<longleftrightarrow> key_cols (df ! i) \<in> set (take i (map key_cols df))"
    using assms nth_duplicated_from [of i "map key_cols df" "[]"] by (simp add: duplicated_def)
  also have "\<dots> \<longleftrightarrow> (\<exists>j < i. key_cols (df ! j) = key_cols (df ! i))"
    using assms by (auto simp: in_set_conv_nth) 
  finally show ?thesis .
qed

text \<open>
  C7. The range pass of the curation stage gives every row it is handed (the rows that
  survive deduplication) the flag \<open>has_range_violation\<close> exactly when at least one
  field is flagged, and in \<open>range_violation_fields\<close> the comma-joined names of the flagged
  fields in the order wind_speed_mps, wind_dir_deg, rotor_speed_rpm, yaw_deg, power_kw; a
  field is flagged exactly when its value is not-a-number, below the low bound or above
  the high bound, so that both bounds themselves are accepted. A row whose wind speed is
  -5.0 is flagged under the default constraints, and its list of fields starts with
  wind_speed_mps.
\<close>

theorem range_flags_characterised:
  "add_range_flags c df =
     map (\<lambda>r. r\<lparr>has_range_violation := (flagged_fields c r \<noteq> []),
                 range_violation_fields := comma_join (flagged_fields c r)\<rparr>) df
   \<and> flagged_fields c r =
       map fst (filter snd
         [(''wind_speed_mps'', isna (wind_speed_mps r) \<or> m_less (wind_speed_mps r) (fst (wind_speed_range c))
              \<or> m_greater (wind_speed_mps r) (snd (wind_speed_range c))),
          (''wind_dir_deg'', isna (wind_dir_deg r) \<or> m_less (wind_dir_deg r) (fst (wind_dir_range c))
              \<or> m_greater (wind_dir_deg r) (snd (wind_dir_range c))),
          (''rotor_speed_rpm'', isna (rotor_speed_rpm r) \<or> m_less (rotor_speed_rpm r) (fst (rotor_rpm_range c))
              \<or> m_greater (rotor_speed_rpm r) (snd (rotor_rpm_range c))),
          (''yaw_deg'', isna (yaw_deg r) \<or> m_less (yaw_deg r) (fst (yaw_deg_range c))
              \<or> m_greater (yaw_deg r) (snd (yaw_deg_range c))),
          (''power_kw'', isna (power_kw r) \<or> m_less (power_kw r) (fst (power_kw_range c))
              \<or> m_greater (power_kw r) (snd (power_kw_range c)))])
   \<and> (wind_speed_mps r = Val (- 5) \<longrightarrow>
        flagged_fields default_TelemetryConstraints r \<noteq> []
        \<and> (\<exists>rest. comma_join (flagged_fields default_TelemetryConstraints r) = ''wind_speed_mps'' @ rest))
   \<and> (lo \<le> hi \<longrightarrow> \<not> out_of_range (lo, hi) (Val lo) \<and> \<not> out_of_range (lo, hi) (Val hi))"
proof -
  have a: "add_range_flags c df =
     map (\<lambda>r. r\<lparr>has_range_violation := (flagged_fields c r \<noteq> []),
                 range_violation_fields := comma_join (flagged_fields c r)\<rparr>) df"
    using add_range_flags_rowwise [of c df] by (simp add: flag_result_def [abs_def])
  have b: "flagged_fields c r =
       map fst (filter snd
         [(''wind_speed_mps'', isna (wind_speed_mps r) \<or> m_less (wind_speed_mps r) (fst (wind_speed_range c))
              \<or> m_greater (wind_speed_mps r) (snd (wind_speed_range c))),
          (''wind_dir_deg'', isna (wind_dir_deg r) \<or> m_less (wind_dir_deg r) (fst (wind_dir_range c))
              \<or> m_greater (wind_dir_deg r) (snd (wind_dir_range c))),
          (''rotor_speed_rpm'', isna (rotor_speed_rpm r) \<or> m_less (rotor_speed_rpm r) (fst (rotor_rpm_range c))
              \<or> m_greater (rotor_speed_rpm r) (snd (rotor_rpm_range c))),
          (''yaw_deg'', isna (yaw_deg r) \<or> m_less (yaw_deg r) (fst (yaw_deg_range c))
              \<or> m_greater (yaw_deg r) (snd (yaw_deg_range c))),
          (''power_kw'', isna (power_kw r) \<or> m_less (power_kw r) (fst (power_kw_range c))
              \<or> m_greater (power_kw r) (snd (power_kw_range c)))])"
    unfolding flagged_fields_def range_checks_def bad_iff_out_of_range by simp
  have c: "wind_speed_mps r = Val (- 5) \<longrightarrow>
        flagged_fields default_TelemetryConstraints r \<noteq> []
        \<and> (\<exists>rest. comma_join (flagged_fields default_TelemetryConstraints r) = ''wind_speed_mps'' @ rest)"
  proof
    assume w: "wind_speed_mps r = Val (- 5)"
    obtain fs where fs: "flagged_fields default_TelemetryConstraints r = ''wind_speed_mps'' # fs"
      using w by (simp add: flagged_fields_def range_checks_def out_of_range_def
          default_TelemetryConstraints_def)
    have "\<exists>rest. comma_join (''wind_speed_mps'' # fs) = ''wind_speed_mps'' @ rest"
      by (cases fs) simp_all
    with fs show "flagged_fields default_TelemetryConstraints r \<noteq> []
        \<and> (\<exists>rest. comma_join (flagged_fields default_TelemetryConstraints r) = ''wind_speed_mps'' @ rest)"
      by simp
  qed
  have d: "lo \<le> hi \<longrightarrow> \<not> out_of_range (lo, hi) (Val lo) \<and> \<not> out_of_range (lo, hi) (Val hi)"
    by (simp add: out_of_range_def)
  from a b c d show ?thesis by blast
qed

theorem range_flags_characterised_witness:
  "wind_speed_mps (with_flags row_A_again) = Val (- 5)
   \<and> (0 :: real) \<le> 60
   \<and> add_range_flags default_TelemetryConstraints [with_flags row_A_again, with_flags row_later] =
       [(with_flags row_A_again)\<lparr>has_range_violation := True, range_violation_fields := ''wind_speed_mps''\<rparr>,
        (with_flags row_later)\<lparr>has_range_violation := True, range_violation_fields := ''power_kw''\<rparr>]
   \<and> \<not> out_of_range (0, 60) (Val 60)"
  using range_flags_characterised [of default_TelemetryConstraints
      "[with_flags row_A_again, with_flags row_later]" "with_flags row_A_again" 0 60]
  by (simp add: default_TelemetryConstraints_def with_flags_def row_A_again_def row_later_def row_A_def
      telemetry.defs curated.defs flagged_fields_def range_checks_def out_of_range_def)

text \<open>
  C3. For a batch of new rows and a dedup key \<open>k\<close> whose earliest record in arrival
  order is \<open>x\<close>, the curated output holds exactly one record with key \<open>k\<close>, and its
  raw columns are those of \<open>x\<close>. The output is strictly ascending in the dedup key and has
  the keys of the batch. The steps are as claimed: the sort is ascending in the key and
  keeps the arrival order among equal keys, a sorted row is marked duplicate exactly when
  an earlier row has its key, and the output is made from the rows not marked.
\<close>

theorem curation_keeps_earliest:
  "(find (\<lambda>x. key_cols x = k) batch = Some x \<longrightarrow>
      (\<exists>y. filter (\<lambda>r. key_cols r = k) (curate c batch) = [y]
            \<and> telemetry.truncate y = x \<and> \<not> is_duplicate y))
   \<and> sorted_wrt (<) (map key_cols (curate c batch))
   \<and> set (map key_cols (curate c batch)) = set (map key_cols batch)
   \<and> sorted (map key_cols (sort_values key_cols df))
   \<and> filter (\<lambda>r. key_cols r = k) (sort_values key_cols df) = filter (\<lambda>r. key_cols r = k) df
   \<and> (\<forall>i < length df. is_duplicate (mark_duplicates df ! i)
          \<longleftrightarrow> (\<exists>j < i. key_cols (df ! j) = key_cols (df ! i)))
   \<and> curate c batch =
       add_range_flags c
         (filter (\<lambda>r. \<not> is_duplicate r)
            (mark_duplicates (sort_values key_cols (map with_flags batch))))"
proof -
  have a: "find (\<lambda>x. key_cols x = k) batch = Some x \<longrightarrow>
      (\<exists>y. filter (\<lambda>r. key_cols r = k) (curate c batch) = [y]
            \<and> telemetry.truncate y = x \<and> \<not> is_duplicate y)"
  proof
    assume "find (\<lambda>x. key_cols x = k) batch = Some x"
    then have "take 1 (filter (\<lambda>x. key_cols x = k) batch) = [x]"
      by (rule take1_filter_find)
    then have "filter (\<lambda>r. key_cols r = k) (curate c batch) = [flag_result c (with_flags x)]"
      by (simp only: curate_filter_key list.map)
    then show "\<exists>y. filter (\<lambda>r. key_cols r = k) (curate c batch) = [y]
            \<and> telemetry.truncate y = x \<and> \<not> is_duplicate y"
      by simp
  qed
  have b: "sorted (map key_cols (sort_values key_cols df))"
    by (simp add: sort_values_def)
  have c: "filter (\<lambda>r. key_cols r = k) (sort_values key_cols df) = filter (\<lambda>r. key_cols r = k) df"
    by (simp add: sort_values_def sort_key_stable)
  have d: "curate c batch =
       add_range_flags c
         (filter (\<lambda>r. \<not> is_duplicate r)
            (mark_duplicates (sort_values key_cols (map with_flags batch))))"
    by (simp add: curate_def Let_def dedup_filter)
  from a b c d curate_sorted [of c batch] curate_keys [of c batch] mark_duplicates_nth [of _ df]
  show ?thesis by blast
qed

theorem curation_keeps_earliest_witness:
  "find (\<lambda>x. key_cols x = key_cols row_A) [row_later, row_A, row_A_again] = Some row_A
   \<and> (\<exists>y. filter (\<lambda>r. key_cols r = key_cols row_A)
              (curate default_TelemetryConstraints [row_later, row_A, row_A_again]) = [y]
          \<and> telemetry.truncate y = row_A \<and> \<not> is_duplicate y)
   \<and> (1 :: nat) < length [with_flags row_A, with_flags row_A_again, with_flags row_later]
   \<and> is_duplicate (mark_duplicates [with_flags row_A, with_flags row_A_again, with_flags row_later] ! 1)"
proof -
  have f: "find (\<lambda>x. key_cols x = key_cols row_A) [row_later, row_A, row_A_again] = Some row_A"
    by (simp add: key_cols_def row_later_def row_A_def)
  have l: "(1 :: nat) < length [with_flags row_A, with_flags row_A_again, with_flags row_later]"
    by simp
  have e: "\<exists>j < (1 :: nat). key_cols ([with_flags row_A, with_flags row_A_again, with_flags row_later] ! j)
              = key_cols ([with_flags row_A, with_flags row_A_again, with_flags row_later] ! 1)"
    by (rule exI [of _ 0]) (simp add: key_cols_def with_flags_def row_A_again_def telemetry.defs)
  show ?thesis
    using f l e
      curation_keeps_earliest [of "key_cols row_A" "[row_later, row_A, row_A_again]" row_A
        default_TelemetryConstraints "[with_flags row_A, with_flags row_A_again, with_flags row_later]"]
    by blast
qed

section \<open>The table store\<close>

lemma files_of_Some [simp]: "files_of (Some files) = files"
  by (simp add: files_of_def)

lemma files_of_mkdir [simp]: "files_of (mkdir ds) = files_of ds"
  by (simp add: mkdir_def)

lemma map_of_put_file: "map_of (put_file path content files) = (map_of files)(path \<mapsto> content)"
  by (induction files) (auto simp: fun_eq_iff)

lemma set_read_dataset: "set (read_dataset ds) = (\<Union>f \<in> set (files_of ds). set (snd f))"
  by (simp add: read_dataset_def)

lemma fold_put_file_other:
  assumes "\<forall>d \<in> set ds. q \<noteq> d @ b"
  shows "map_of (fold (\<lambda>d. put_file (d @ b) (g d)) ds files) q = map_of files q"
  using assms by (induction ds arbitrary: files) (simp_all add: map_of_put_file)

lemma fold_put_file_written:
  assumes "d \<in> set ds"
  shows "map_of (fold (\<lambda>d. put_file (d @ b) (g d)) ds files) (d @ b) = Some (g d)"
  using assms
proof (induction ds arbitrary: files)
  case Nil
  then show ?case by simp
next
  case (Cons e ds)
  show ?case
  proof (cases "d \<in> set ds")
    case True
    then show ?thesis by (simp add: Cons.IH)
  next
    case False
    with Cons.prems have e: "e = d" by simp
    have "\<forall>x \<in> set ds. d @ b \<noteq> x @ b"
      using False by auto
    then show ?thesis
      by (simp add: e fold_put_file_other map_of_put_file)
  qed
qed

text \<open>
  What a write leaves in the store: the file of every partition of the table holds exactly
  the rows of the table in that partition, in table order, and a file no partition of the
  table names is as before.
\<close>

lemma write_files_written:
  assumes "r \<in> set table"
  shows "map_of (write_files dir_of basename table files) (dir_of r @ basename)
           = Some (filter (\<lambda>x. dir_of x = dir_of r) table)"
  unfolding write_files_def
  using assms by (intro fold_put_file_written) simp

lemma write_files_other:
  assumes "\<forall>r \<in> set table. path \<noteq> dir_of r @ basename"
  shows "map_of (write_files dir_of basename table files) path = map_of files path"
  unfolding write_files_def
  using assms by (intro fold_put_file_other) simp

lemma write_files_readable:
  "set table \<subseteq> set (read_dataset (Some (write_files dir_of basename table files)))"
proof
  fix r assume r: "r \<in> set table"
  from write_files_written [OF r, of dir_of basename files]
  have "(dir_of r @ basename, filter (\<lambda>x. dir_of x = dir_of r) table)
          \<in> set (write_files dir_of basename table files)"
    by (rule map_of_SomeD)
  moreover have "r \<in> set (filter (\<lambda>x. dir_of x = dir_of r) table)"
    using r by simp
  ultimately show "r \<in> set (read_dataset (Some (write_files dir_of basename table files)))"
    unfolding set_read_dataset by force
qed

lemma put_file_fresh:
  "path \<notin> fst ` set files \<Longrightarrow> put_file path content files = files @ [(path, content)]"
  by (induction files) auto

lemma fold_put_file_fresh:
  assumes "distinct ds" and "\<forall>d \<in> set ds. d @ b \<notin> fst ` set files"
  shows "fold (\<lambda>d. put_file (d @ b) (g d)) ds files = files @ map (\<lambda>d. (d @ b, g d)) ds"
  using assms
proof (induction ds arbitrary: files)
  case Nil
  then show ?case by simp
next
  case (Cons e ds)
  have e: "put_file (e @ b) (g e) files = files @ [(e @ b, g e)]"
    using Cons.prems(2) by (intro put_file_fresh) simp
  have "\<forall>d \<in> set ds. d @ b \<notin> fst ` set (files @ [(e @ b, g e)])"
    using Cons.prems by auto
  with Cons.prems(1) have "fold (\<lambda>d. put_file (d @ b) (g d)) ds (files @ [(e @ b, g e)])
      = (files @ [(e @ b, g e)]) @ map (\<lambda>d. (d @ b, g d)) ds"
    by (intro Cons.IH) simp_all
  then show ?case by (simp add: e)
qed

lemma mset_read_dataset:
  "mset (read_dataset ds) = sum_mset (image_mset (\<lambda>f. mset (snd f)) (mset (files_of ds)))"
proof -
  have "mset (read_dataset ds) = sum_list (map mset (map snd (sort_key fst (files_of ds))))"
    by (simp add: read_dataset_def mset_concat)
  also have "\<dots> = sum_mset (mset (map (\<lambda>f. mset (snd f)) (sort_key fst (files_of ds))))"
    by (simp only: sum_mset_sum_list map_map comp_def)
  also have "\<dots> = sum_mset (image_mset (\<lambda>f. mset (snd f)) (mset (files_of ds)))"
    by simp
  finally show ?thesis .
qed

lemma mset_by_partition:
  "sum_list (map (\<lambda>d. mset (filter (\<lambda>r. f r = d) table)) (remdups (map f table))) = mset table"
proof -
  have "sum_list (map (\<lambda>d. mset (filter (\<lambda>r. f r = d) table)) (remdups (map f table)))
          = (\<Sum>d \<in> f ` set table. mset (filter (\<lambda>r. f r = d) table))"
    by (simp add: sum_list_distinct_conv_sum_set)
  also have "\<dots> = mset table"
  proof (rule multiset_eqI)
    fix x
    have "count (\<Sum>d \<in> f ` set table. mset (filter (\<lambda>r. f r = d) table)) x
            = (\<Sum>d \<in> f ` set table. if f x = d then count (mset table) x else 0)"
      by (simp add: count_sum)
    also have "\<dots> = (if f x \<in> f ` set table then count (mset table) x else 0)"
      by (simp add: sum.delta')
    also have "\<dots> = count (mset table) x"
      by (auto simp: count_eq_zero_iff)
    finally show "count (\<Sum>d \<in> f ` set table. mset (filter (\<lambda>r. f r = d) table)) x = count (mset table) x" .
  qed
  finally show ?thesis .
qed

text \<open>
  A write under a file name that no file of the dataset has in the directories written to
  is an append: every file is kept, and a read returns the rows read before and the rows
  of the table.
\<close>

lemma write_files_fresh:
  assumes "\<forall>r \<in> set table. dir_of r @ basename \<notin> fst ` set files"
  shows "write_files dir_of basename table files =
           files @ map (\<lambda>d. (d @ basename, filter (\<lambda>r. dir_of r = d) table)) (remdups (map dir_of table))"
  unfolding write_files_def
  using assms by (intro fold_put_file_fresh) auto

lemma write_files_append:
  assumes "\<forall>r \<in> set table. dir_of r @ basename \<notin> fst ` set files"
  shows "mset (read_dataset (Some (write_files dir_of basename table files)))
           = mset (read_dataset (Some files)) + mset table"
proof -
  let ?new = "map (\<lambda>d. (d @ basename, filter (\<lambda>r. dir_of r = d) table)) (remdups (map dir_of table))"
  have "sum_mset (image_mset (\<lambda>f. mset (snd f)) (mset ?new))
        = sum_mset (mset (map (\<lambda>f. mset (snd f)) ?new))"
    by (simp only: mset_map)
  also have "\<dots> = sum_list (map (\<lambda>f. mset (snd f)) ?new)"
    by (rule sum_mset_sum_list)
  also have "\<dots> = sum_list (map (\<lambda>d. mset (filter (\<lambda>r. dir_of r = d) table)) (remdups (map dir_of table)))"
    by (simp only: map_map comp_def snd_conv)
  also have "\<dots> = mset table"
    by (rule mset_by_partition)
  finally have n: "sum_mset (image_mset (\<lambda>f. mset (snd f)) (mset ?new)) = mset table" .
  have "mset (read_dataset (Some (write_files dir_of basename table files)))
          = sum_mset (image_mset (\<lambda>f. mset (snd f)) (mset (files @ ?new)))"
    unfolding mset_read_dataset write_files_fresh [OF assms] files_of_Some ..
  also have "\<dots> = sum_mset (image_mset (\<lambda>f. mset (snd f)) (mset files))
                    + sum_mset (image_mset (\<lambda>f. mset (snd f)) (mset ?new))"
    by (simp only: mset_append image_mset_union sum_mset.union)
  also have "\<dots> = mset (read_dataset (Some files)) + mset table"
    unfolding n mset_read_dataset files_of_Some ..
  finally show ?thesis .
qed

text \<open>
  What the store holds once a stage has written its table: the file of every partition of
  the table holds the rows of the table in that partition and no other row, and a read of
  the dataset returns every row of the table.
\<close>

lemma written_table:
  assumes "ds = Some (write_files dir_of basename table files)"
  shows "(\<forall>r \<in> set table.
            map_of (files_of ds) (dir_of r @ basename) = Some (filter (\<lambda>x. dir_of x = dir_of r) table))
         \<and> set table \<subseteq> set (read_dataset ds)"
  unfolding assms using write_files_written [of _ table dir_of basename files]
    write_files_readable [of table dir_of basename files]
  by simp

section \<open>Incremental processing: idempotence and the processed-set\<close>

lemma date_sample: "date_of 1767571200000000000 = ''2026-01-05''"
  by code_simp

lemma hour_key_sample: "hour_key_of 1767571200000000000 = ''2026-01-05T00:00:00Z''"
  by code_simp

lemma partitions_sample:
  "silver_partition (with_flags row_A) = ''sim_run_id=SIM-A/farm_id=F001/date=2026-01-05/''"
  "silver_partition (with_flags row_B) = ''sim_run_id=SIM-B/farm_id=F001/date=2026-01-05/''"
  "bronze_partition row_A = ''sim_run_id=SIM-A/farm_id=F001/date=2026-01-05/hour=2026-01-05T00:00:00Z/''"
  by (simp_all add: silver_partition_def bronze_partition_def hive_dir_def with_flags_def
      row_A_def row_B_def telemetry.defs date_sample hour_key_sample)

lemma read_two_runs: "read_dataset (bronze lake_two_runs) = [row_A, row_B]"
  by (simp add: read_dataset_def lake_two_runs_def file_A_def file_B_def)

lemma normalize_sample:
  "normalize_timestamps row_A = row_A"
  "normalize_timestamps row_B = row_B"
  by (simp_all add: normalize_timestamps_def floor_ms_def row_A_def row_B_def)

lemma process_keys_sample:
  "process_key_of row_A = ''SIM-A|F001|2026-01-05T00:00:00Z''"
  "process_key_of row_B = ''SIM-B|F001|2026-01-05T00:00:00Z''"
  "process_key_of (with_flags row_A) = ''SIM-A|F001|2026-01-05T00:00:00Z''"
  "process_key_of (with_flags row_B) = ''SIM-B|F001|2026-01-05T00:00:00Z''"
  by (simp_all add: process_key_of_def row_A_def row_B_def hour_key_sample with_flags_def telemetry.defs)

lemma curate_two_runs:
  "curate default_TelemetryConstraints [row_A, row_B] = [with_flags row_A]"
  "curate default_TelemetryConstraints [row_B] = [with_flags row_B]"
  by (simp_all add: curate_keep_first key_cols_def row_A_def row_B_def with_flags_def telemetry.defs
      curated.defs flag_result_def flagged_fields_def range_checks_def out_of_range_def
      default_TelemetryConstraints_def)

lemma write_one_file:
  "write_files dir_of basename [r] files = put_file (dir_of r @ basename) [r] files"
  by (simp add: write_files_def)

lemma first_run:
  "SilverJob_run default_SilverJob Written lake_two_runs =
     (Inr ''data_lake/silver'',
      lake_two_runs\<lparr>silver :=
          Some [(''sim_run_id=SIM-A/farm_id=F001/date=2026-01-05/part-0.parquet'', [with_flags row_A])],
        state_files := [''silver_processed_hours'' \<mapsto> {''SIM-A|F001|2026-01-05T00:00:00Z''}]\<rparr>)"
proof -
  have b: "bronze lake_two_runs \<noteq> None" "silver lake_two_runs = None"
    "state_files lake_two_runs = Map.empty"
    by (simp_all add: lake_two_runs_def)
  show ?thesis
    by (simp add: SilverJob_run_def read_two_runs b default_SilverJob_def load_set_def save_set_def
      process_keys_sample normalize_sample curate_two_runs write_to_dataset_def write_one_file
      partitions_sample mkdir_def files_of_def Let_def)
qed

lemma second_run:
  "SilverJob_run default_SilverJob Written lake_after_first_run =
     (Inr ''data_lake/silver'',
      lake_two_runs\<lparr>silver :=
          Some [(''sim_run_id=SIM-A/farm_id=F001/date=2026-01-05/part-0.parquet'', [with_flags row_A]),
                (''sim_run_id=SIM-B/farm_id=F001/date=2026-01-05/part-0.parquet'', [with_flags row_B])],
        state_files := [''silver_processed_hours'' \<mapsto>
          {''SIM-A|F001|2026-01-05T00:00:00Z'', ''SIM-B|F001|2026-01-05T00:00:00Z''}]\<rparr>)"
proof -
  have b: "bronze lake_two_runs \<noteq> None"
    by (simp_all add: lake_two_runs_def)
  show ?thesis
    unfolding lake_after_first_run_def first_run snd_conv
    by (simp add: SilverJob_run_def read_two_runs b default_SilverJob_def load_set_def save_set_def
      process_keys_sample normalize_sample curate_two_runs write_to_dataset_def write_one_file
      partitions_sample mkdir_def files_of_def Let_def)
qed

text \<open>
  C1. The curation stage run twice on the same raw data: the raw dataset holds the readings
  of runs SIM-A and SIM-B for the same instant, farm and turbine. The first run returns,
  keeps the SIM-A reading, drops the SIM-B reading as its duplicate and records the SIM-A
  bucket only. The second run, with the raw data unchanged, finds the SIM-B reading new,
  writes it and records the SIM-B bucket: it is not a no-op.
\<close>

theorem silver_second_run_reprocesses:
  "fst (SilverJob_run default_SilverJob Written lake_two_runs) = Inr ''data_lake/silver''
   \<and> silver lake_after_first_run =
       Some [(''sim_run_id=SIM-A/farm_id=F001/date=2026-01-05/part-0.parquet'', [with_flags row_A])]
   \<and> read_dataset (silver lake_after_first_run) = [with_flags row_A]
   \<and> load_set lake_after_first_run ''silver_processed_hours'' = {''SIM-A|F001|2026-01-05T00:00:00Z''}
   \<and> bronze lake_after_first_run = bronze lake_two_runs
   \<and> fst (SilverJob_run default_SilverJob Written lake_after_first_run) = Inr ''data_lake/silver''
   \<and> silver (snd (SilverJob_run default_SilverJob Written lake_after_first_run)) =
       Some [(''sim_run_id=SIM-A/farm_id=F001/date=2026-01-05/part-0.parquet'', [with_flags row_A]),
             (''sim_run_id=SIM-B/farm_id=F001/date=2026-01-05/part-0.parquet'', [with_flags row_B])]
   \<and> read_dataset (silver (snd (SilverJob_run default_SilverJob Written lake_after_first_run)))
        = [with_flags row_A, with_flags row_B]
   \<and> load_set (snd (SilverJob_run default_SilverJob Written lake_after_first_run)) ''silver_processed_hours''
        = {''SIM-A|F001|2026-01-05T00:00:00Z'', ''SIM-B|F001|2026-01-05T00:00:00Z''}
   \<and> snd (SilverJob_run default_SilverJob Written lake_after_first_run) \<noteq> lake_after_first_run"
proof -
  let ?fA = "(''sim_run_id=SIM-A/farm_id=F001/date=2026-01-05/part-0.parquet'', [with_flags row_A])"
  let ?fB = "(''sim_run_id=SIM-B/farm_id=F001/date=2026-01-05/part-0.parquet'', [with_flags row_B])"
  have ne: "Some [?fA, ?fB] \<noteq> Some [?fA]"
    by simp
  have l1: "lake_after_first_run = lake_two_runs\<lparr>silver := Some [?fA],
        state_files := [''silver_processed_hours'' \<mapsto> {''SIM-A|F001|2026-01-05T00:00:00Z''}]\<rparr>"
    by (simp add: lake_after_first_run_def first_run)
  have "silver (snd (SilverJob_run default_SilverJob Written lake_after_first_run)) \<noteq> silver lake_after_first_run"
    unfolding second_run unfolding l1 using ne by simp
  then have "snd (SilverJob_run default_SilverJob Written lake_after_first_run) \<noteq> lake_after_first_run"
    by auto
  then show ?thesis
    unfolding second_run first_run
    by (simp add: l1 load_set_def lake_two_runs_def read_dataset_def)
qed

lemma load_set_frame [simp]:
  "load_set (lk\<lparr>silver := s\<rparr>) name = load_set lk name"
  "load_set (lk\<lparr>gold_hourly_energy := h\<rparr>) name = load_set lk name"
  "load_set (lk\<lparr>gold_farm_kpis := f\<rparr>) name = load_set lk name"
  by (simp_all add: load_set_def)

lemma silver_run_failed_write:
  "state_files (snd (SilverJob_run self (WriteFails n) lk)) = state_files lk"
  by (simp add: SilverJob_run_def Let_def write_to_dataset_def)

lemma silver_run_failed_raises:
  "\<not> isl (fst (SilverJob_run self (WriteFails n) lk)) \<Longrightarrow> snd (SilverJob_run self (WriteFails n) lk) = lk"
  by (simp add: SilverJob_run_def Let_def write_to_dataset_def split: if_splits)

lemma silver_run_commit:
  assumes "state_files (snd (SilverJob_run self w lk)) \<noteq> state_files lk"
  shows "w = Written \<and> fst (SilverJob_run self w lk) = Inr (SilverJob.silver_path self)
         \<and> silver (snd (SilverJob_run self w lk)) =
             Some (write_files silver_partition ''part-0.parquet'' (silver_table self lk)
                     (files_of (silver lk)))
         \<and> state_files (snd (SilverJob_run self w lk)) =
             (state_files lk)(SilverJob.state_name self \<mapsto>
                load_set lk (SilverJob.state_name self) \<union> set (map process_key_of (silver_table self lk)))"
proof (cases w)
  case (WriteFails n)
  with assms silver_run_failed_write [of self n lk] show ?thesis by simp
next
  case Written
  with assms show ?thesis
    by (auto simp: SilverJob_run_def Let_def write_to_dataset_def save_set_def silver_table_def
        split: if_splits)
qed

lemma hourly_run_failed_write:
  "state_files (snd (GoldJob_run_hourly_energy self dt (WriteFails n) lk)) = state_files lk"
  by (simp add: GoldJob_run_hourly_energy_def Let_def write_to_dataset_def)

lemma hourly_run_failed_raises:
  "\<not> isl (fst (GoldJob_run_hourly_energy self dt (WriteFails n) lk)) \<Longrightarrow>
   snd (GoldJob_run_hourly_energy self dt (WriteFails n) lk)
     = lk\<lparr>gold_hourly_energy := mkdir (gold_hourly_energy lk)\<rparr>"
  by (simp add: GoldJob_run_hourly_energy_def Let_def write_to_dataset_def split: if_splits)

lemma hourly_run_commit:
  assumes "state_files (snd (GoldJob_run_hourly_energy self dt w lk)) \<noteq> state_files lk"
  shows "w = Written \<and> fst (GoldJob_run_hourly_energy self dt w lk) = Inr (gold_path self @ ''/hourly_energy'')
         \<and> gold_hourly_energy (snd (GoldJob_run_hourly_energy self dt w lk)) =
             Some (write_files hourly_energy_partition ''part-0.parquet'' (hourly_energy_table self dt lk)
                     (files_of (gold_hourly_energy lk)))
         \<and> state_files (snd (GoldJob_run_hourly_energy self dt w lk)) =
             (state_files lk)(GoldJob.state_name self \<mapsto>
                load_set lk (GoldJob.state_name self)
                  \<union> set (map hourly_energy.process_key (hourly_energy_table self dt lk)))"
proof (cases w)
  case (WriteFails n)
  with assms hourly_run_failed_write [of self dt n lk] show ?thesis by simp
next
  case Written
  with assms show ?thesis
    by (simp add: GoldJob_run_hourly_energy_def Let_def write_to_dataset_def save_set_def
        hourly_energy_table_def split: if_splits)
qed

lemma kpis_run_failed_write:
  "state_files (snd (GoldJob_run_farm_kpis self dt rated (WriteFails n) lk)) = state_files lk"
  by (simp add: GoldJob_run_farm_kpis_def Let_def write_to_dataset_def py_div_def)

lemma kpis_run_failed_raises:
  "\<not> isl (fst (GoldJob_run_farm_kpis self dt rated (WriteFails n) lk)) \<Longrightarrow>
   snd (GoldJob_run_farm_kpis self dt rated (WriteFails n) lk)
     = lk\<lparr>gold_farm_kpis := mkdir (gold_farm_kpis lk)\<rparr>"
  by (simp add: GoldJob_run_farm_kpis_def Let_def write_to_dataset_def py_div_def
      split: if_splits)

lemma kpis_run_commit:
  assumes "state_files (snd (GoldJob_run_farm_kpis self dt rated w lk)) \<noteq> state_files lk"
  shows "w = Written \<and> fst (GoldJob_run_farm_kpis self dt rated w lk) = Inr (gold_path self @ ''/farm_kpis'')
         \<and> gold_farm_kpis (snd (GoldJob_run_farm_kpis self dt rated w lk)) =
             Some (write_files farm_kpis_partition ''part-0.parquet'' (farm_kpis_table dt rated lk)
                     (files_of (gold_farm_kpis lk)))
         \<and> state_files (snd (GoldJob_run_farm_kpis self dt rated w lk)) =
             (state_files lk)(''gold_farm_kpis_processed_hours'' \<mapsto>
                load_set lk ''gold_farm_kpis_processed_hours''
                  \<union> set (map farm_kpis.process_key (farm_kpis_table dt rated lk)))"
proof (cases w)
  case (WriteFails n)
  with assms kpis_run_failed_write [of self dt rated n lk] show ?thesis by simp
next
  case Written
  with assms show ?thesis
    by (simp add: GoldJob_run_farm_kpis_def Let_def write_to_dataset_def save_set_def
        farm_kpis_table_def py_div_def split: if_splits)
qed

text \<open>
  C2. In the curation stage and in both rollups the processed-set is saved only after
  \<open>write_to_dataset\<close> has returned. When the write fails, whatever part of the table
  reached the store, no state file changes, and the run raises: a run that returns with a
  failing store has not written (it found nothing new). Whenever a run changes a state
  file, the write succeeded, the run returned its output location, and the set was
  extended by exactly the bucket keys of the table of new rows; the store then holds that
  whole table: the file of every partition of the table holds the rows of the table in
  that partition and no other row (a file an earlier run left there is replaced), and a
  read of the dataset returns every row of the table.
\<close>

theorem processed_set_after_persist:
  "state_files (snd (SilverJob_run sj (WriteFails n) lk)) = state_files lk
   \<and> state_files (snd (GoldJob_run_hourly_energy gj dt (WriteFails n) lk)) = state_files lk
   \<and> state_files (snd (GoldJob_run_farm_kpis gj dt rated (WriteFails n) lk)) = state_files lk
   \<and> (\<not> isl (fst (SilverJob_run sj (WriteFails n) lk)) \<longrightarrow>
        snd (SilverJob_run sj (WriteFails n) lk) = lk)
   \<and> (\<not> isl (fst (GoldJob_run_hourly_energy gj dt (WriteFails n) lk)) \<longrightarrow>
        snd (GoldJob_run_hourly_energy gj dt (WriteFails n) lk)
          = lk\<lparr>gold_hourly_energy := mkdir (gold_hourly_energy lk)\<rparr>)
   \<and> (\<not> isl (fst (GoldJob_run_farm_kpis gj dt rated (WriteFails n) lk)) \<longrightarrow>
        snd (GoldJob_run_farm_kpis gj dt rated (WriteFails n) lk)
          = lk\<lparr>gold_farm_kpis := mkdir (gold_farm_kpis lk)\<rparr>)
   \<and> (state_files (snd (SilverJob_run sj w lk)) \<noteq> state_files lk \<longrightarrow>
        w = Written
        \<and> fst (SilverJob_run sj w lk) = Inr (SilverJob.silver_path sj)
        \<and> state_files (snd (SilverJob_run sj w lk)) =
            (state_files lk)(SilverJob.state_name sj \<mapsto>
               load_set lk (SilverJob.state_name sj) \<union> set (map process_key_of (silver_table sj lk)))
        \<and> silver (snd (SilverJob_run sj w lk)) =
            Some (write_files silver_partition ''part-0.parquet'' (silver_table sj lk)
                    (files_of (silver lk)))
        \<and> (\<forall>r \<in> set (silver_table sj lk).
              map_of (files_of (silver (snd (SilverJob_run sj w lk))))
                (silver_partition r @ ''part-0.parquet'')
                = Some (filter (\<lambda>x. silver_partition x = silver_partition r) (silver_table sj lk)))
        \<and> set (silver_table sj lk) \<subseteq> set (read_dataset (silver (snd (SilverJob_run sj w lk)))))
   \<and> (state_files (snd (GoldJob_run_hourly_energy gj dt w lk)) \<noteq> state_files lk \<longrightarrow>
        w = Written
        \<and> fst (GoldJob_run_hourly_energy gj dt w lk) = Inr (gold_path gj @ ''/hourly_energy'')
        \<and> state_files (snd (GoldJob_run_hourly_energy gj dt w lk)) =
            (state_files lk)(GoldJob.state_name gj \<mapsto>
               load_set lk (GoldJob.state_name gj)
                 \<union> set (map hourly_energy.process_key (hourly_energy_table gj dt lk)))
        \<and> gold_hourly_energy (snd (GoldJob_run_hourly_energy gj dt w lk)) =
            Some (write_files hourly_energy_partition ''part-0.parquet'' (hourly_energy_table gj dt lk)
                    (files_of (gold_hourly_energy lk)))
        \<and> (\<forall>a \<in> set (hourly_energy_table gj dt lk).
              map_of (files_of (gold_hourly_energy (snd (GoldJob_run_hourly_energy gj dt w lk))))
                (hourly_energy_partition a @ ''part-0.parquet'')
                = Some (filter (\<lambda>x. hourly_energy_partition x = hourly_energy_partition a)
                          (hourly_energy_table gj dt lk)))
        \<and> set (hourly_energy_table gj dt lk)
              \<subseteq> set (read_dataset (gold_hourly_energy (snd (GoldJob_run_hourly_energy gj dt w lk)))))
   \<and> (state_files (snd (GoldJob_run_farm_kpis gj dt rated w lk)) \<noteq> state_files lk \<longrightarrow>
        w = Written
        \<and> fst (GoldJob_run_farm_kpis gj dt rated w lk) = Inr (gold_path gj @ ''/farm_kpis'')
        \<and> state_files (snd (GoldJob_run_farm_kpis gj dt rated w lk)) =
            (state_files lk)(''gold_farm_kpis_processed_hours'' \<mapsto>
               load_set lk ''gold_farm_kpis_processed_hours''
                 \<union> set (map farm_kpis.process_key (farm_kpis_table dt rated lk)))
        \<and> gold_farm_kpis (snd (GoldJob_run_farm_kpis gj dt rated w lk)) =
            Some (write_files farm_kpis_partition ''part-0.parquet'' (farm_kpis_table dt rated lk)
                    (files_of (gold_farm_kpis lk)))
        \<and> (\<forall>a \<in> set (farm_kpis_table dt rated lk).
              map_of (files_of (gold_farm_kpis (snd (GoldJob_run_farm_kpis gj dt rated w lk))))
                (farm_kpis_partition a @ ''part-0.parquet'')
                = Some (filter (\<lambda>x. farm_kpis_partition x = farm_kpis_partition a)
                          (farm_kpis_table dt rated lk)))
        \<and> set (farm_kpis_table dt rated lk)
              \<subseteq> set (read_dataset (gold_farm_kpis (snd (GoldJob_run_farm_kpis gj dt rated w lk)))))"
proof -
  have s: "state_files (snd (SilverJob_run sj w lk)) \<noteq> state_files lk \<longrightarrow>
        w = Written
        \<and> fst (SilverJob_run sj w lk) = Inr (SilverJob.silver_path sj)
        \<and> state_files (snd (SilverJob_run sj w lk)) =
            (state_files lk)(SilverJob.state_name sj \<mapsto>
               load_set lk (SilverJob.state_name sj) \<union> set (map process_key_of (silver_table sj lk)))
        \<and> silver (snd (SilverJob_run sj w lk)) =
            Some (write_files silver_partition ''part-0.parquet'' (silver_table sj lk)
                    (files_of (silver lk)))
        \<and> (\<forall>r \<in> set (silver_table sj lk).
              map_of (files_of (silver (snd (SilverJob_run sj w lk))))
                (silver_partition r @ ''part-0.parquet'')
                = Some (filter (\<lambda>x. silver_partition x = silver_partition r) (silver_table sj lk)))
        \<and> set (silver_table sj lk) \<subseteq> set (read_dataset (silver (snd (SilverJob_run sj w lk))))"
  proof
    assume a: "state_files (snd (SilverJob_run sj w lk)) \<noteq> state_files lk"
    from silver_run_commit [OF a] written_table [of "silver (snd (SilverJob_run sj w lk))"
        silver_partition "''part-0.parquet''" "silver_table sj lk" "files_of (silver lk)"]
    show "w = Written
        \<and> fst (SilverJob_run sj w lk) = Inr (SilverJob.silver_path sj)
        \<and> state_files (snd (SilverJob_run sj w lk)) =
            (state_files lk)(SilverJob.state_name sj \<mapsto>
               load_set lk (SilverJob.state_name sj) \<union> set (map process_key_of (silver_table sj lk)))
        \<and> silver (snd (SilverJob_run sj w lk)) =
            Some (write_files silver_partition ''part-0.parquet'' (silver_table sj lk)
                    (files_of (silver lk)))
        \<and> (\<forall>r \<in> set (silver_table sj lk).
              map_of (files_of (silver (snd (SilverJob_run sj w lk))))
                (silver_partition r @ ''part-0.parquet'')
                = Some (filter (\<lambda>x. silver_partition x = silver_partition r) (silver_table sj lk)))
        \<and> set (silver_table sj lk) \<subseteq> set (read_dataset (silver (snd (SilverJob_run sj w lk))))"
      by blast
  qed
  have h: "state_files (snd (GoldJob_run_hourly_energy gj dt w lk)) \<noteq> state_files lk \<longrightarrow>
        w = Written
        \<and> fst (GoldJob_run_hourly_energy gj dt w lk) = Inr (gold_path gj @ ''/hourly_energy'')
        \<and> state_files (snd (GoldJob_run_hourly_energy gj dt w lk)) =
            (state_files lk)(GoldJob.state_name gj \<mapsto>
               load_set lk (GoldJob.state_name gj)
                 \<union> set (map hourly_energy.process_key (hourly_energy_table gj dt lk)))
        \<and> gold_hourly_energy (snd (GoldJob_run_hourly_energy gj dt w lk)) =
            Some (write_files hourly_energy_partition ''part-0.parquet'' (hourly_energy_table gj dt lk)
                    (files_of (gold_hourly_energy lk)))
        \<and> (\<forall>a \<in> set (hourly_energy_table gj dt lk).
              map_of (files_of (gold_hourly_energy (snd (GoldJob_run_hourly_energy gj dt w lk))))
                (hourly_energy_partition a @ ''part-0.parquet'')
                = Some (filter (\<lambda>x. hourly_energy_partition x = hourly_energy_partition a)
                          (hourly_energy_table gj dt lk)))
        \<and> set (hourly_energy_table gj dt lk)
              \<subseteq> set (read_dataset (gold_hourly_energy (snd (GoldJob_run_hourly_energy gj dt w lk))))"
  proof
    assume a: "state_files (snd (GoldJob_run_hourly_energy gj dt w lk)) \<noteq> state_files lk"
    from hourly_run_commit [OF a]
      written_table [of "gold_hourly_energy (snd (GoldJob_run_hourly_energy gj dt w lk))"
        hourly_energy_partition "''part-0.parquet''" "hourly_energy_table gj dt lk"
        "files_of (gold_hourly_energy lk)"]
    show "w = Written
        \<and> fst (GoldJob_run_hourly_energy gj dt w lk) = Inr (gold_path gj @ ''/hourly_energy'')
        \<and> state_files (snd (GoldJob_run_hourly_energy gj dt w lk)) =
            (state_files lk)(GoldJob.state_name gj \<mapsto>
               load_set lk (GoldJob.state_name gj)
                 \<union> set (map hourly_energy.process_key (hourly_energy_table gj dt lk)))
        \<and> gold_hourly_energy (snd (GoldJob_run_hourly_energy gj dt w lk)) =
            Some (write_files hourly_energy_partition ''part-0.parquet'' (hourly_energy_table gj dt lk)
                    (files_of (gold_hourly_energy lk)))
        \<and> (\<forall>a \<in> set (hourly_energy_table gj dt lk).
              map_of (files_of (gold_hourly_energy (snd (GoldJob_run_hourly_energy gj dt w lk))))
                (hourly_energy_partition a @ ''part-0.parquet'')
                = Some (filter (\<lambda>x. hourly_energy_partition x = hourly_energy_partition a)
                          (hourly_energy_table gj dt lk)))
        \<and> set (hourly_energy_table gj dt lk)
              \<subseteq> set (read_dataset (gold_hourly_energy (snd (GoldJob_run_hourly_energy gj dt w lk))))"
      by blast
  qed
  have k: "state_files (snd (GoldJob_run_farm_kpis gj dt rated w lk)) \<noteq> state_files lk \<longrightarrow>
        w = Written
        \<and> fst (GoldJob_run_farm_kpis gj dt rated w lk) = Inr (gold_path gj @ ''/farm_kpis'')
        \<and> state_files (snd (GoldJob_run_farm_kpis gj dt rated w lk)) =
            (state_files lk)(''gold_farm_kpis_processed_hours'' \<mapsto>
               load_set lk ''gold_farm_kpis_processed_hours''
                 \<union> set (map farm_kpis.process_key (farm_kpis_table dt rated lk)))
        \<and> gold_farm_kpis (snd (GoldJob_run_farm_kpis gj dt rated w lk)) =
            Some (write_files farm_kpis_partition ''part-0.parquet'' (farm_kpis_table dt rated lk)
                    (files_of (gold_farm_kpis lk)))
        \<and> (\<forall>a \<in> set (farm_kpis_table dt rated lk).
              map_of (files_of (gold_farm_kpis (snd (GoldJob_run_farm_kpis gj dt rated w lk))))
                (farm_kpis_partition a @ ''part-0.parquet'')
                = Some (filter (\<lambda>x. farm_kpis_partition x = farm_kpis_partition a)
                          (farm_kpis_table dt rated lk)))
        \<and> set (farm_kpis_table dt rated lk)
              \<subseteq> set (read_dataset (gold_farm_kpis (snd (GoldJob_run_farm_kpis gj dt rated w lk))))"
  proof
    assume a: "state_files (snd (GoldJob_run_farm_kpis gj dt rated w lk)) \<noteq> state_files lk"
    from kpis_run_commit [OF a]
      written_table [of "gold_farm_kpis (snd (GoldJob_run_farm_kpis gj dt rated w lk))"
        farm_kpis_partition "''part-0.parquet''" "farm_kpis_table dt rated lk"
        "files_of (gold_farm_kpis lk)"]
    show "w = Written
        \<and> fst (GoldJob_run_farm_kpis gj dt rated w lk) = Inr (gold_path gj @ ''/farm_kpis'')
        \<and> state_files (snd (GoldJob_run_farm_kpis gj dt rated w lk)) =
            (state_files lk)(''gold_farm_kpis_processed_hours'' \<mapsto>
               load_set lk ''gold_farm_kpis_processed_hours''
                 \<union> set (map farm_kpis.process_key (farm_kpis_table dt rated lk)))
        \<and> gold_farm_kpis (snd (GoldJob_run_farm_kpis gj dt rated w lk)) =
            Some (write_files farm_kpis_partition ''part-0.parquet'' (farm_kpis_table dt rated lk)
                    (files_of (gold_farm_kpis lk)))
        \<and> (\<forall>a \<in> set (farm_kpis_table dt rated lk).
              map_of (files_of (gold_farm_kpis (snd (GoldJob_run_farm_kpis gj dt rated w lk))))
                (farm_kpis_partition a @ ''part-0.parquet'')
                = Some (filter (\<lambda>x. farm_kpis_partition x = farm_kpis_partition a)
                          (farm_kpis_table dt rated lk)))
        \<and> set (farm_kpis_table dt rated lk)
              \<subseteq> set (read_dataset (gold_farm_kpis (snd (GoldJob_run_farm_kpis gj dt rated w lk))))"
      by blast
  qed
  from s h k silver_run_failed_write [of sj n lk] hourly_run_failed_write [of gj dt n lk]
    kpis_run_failed_write [of gj dt rated n lk]
    silver_run_failed_raises [of sj n lk] hourly_run_failed_raises [of gj dt n lk]
    kpis_run_failed_raises [of gj dt rated n lk]
  show ?thesis
    by (intro conjI) blast+
qed

lemma hour_floor_sample:
  "hour_floor 1767571200000000000 = 1767571200000000000"
  "hour_floor 1767571260000000000 = 1767571200000000000"
  by (simp_all add: hour_floor_def)

lemma read_one_file: "read_dataset (Some [(path, content)]) = content"
  by (simp add: read_dataset_def)

lemma quiet_runs:
  "SilverJob_run default_SilverJob (WriteFails 0) lake_quiet = (Inr ''data_lake/silver'', lake_quiet)"
  "fst (GoldJob_run_hourly_energy default_GoldJob 60 (WriteFails 0) lake_quiet) = Inr ''data_lake/gold/hourly_energy''"
  "fst (GoldJob_run_farm_kpis default_GoldJob 60 2000 (WriteFails 0) lake_quiet) = Inr ''data_lake/gold/farm_kpis''"
  by (simp_all add: SilverJob_run_def GoldJob_run_hourly_energy_def GoldJob_run_farm_kpis_def
      lake_quiet_def default_SilverJob_def default_GoldJob_def load_set_def process_keys_sample
      normalize_sample read_one_file read_dataset_def Let_def)

lemma curate_one: "curate default_TelemetryConstraints [row_A] = [with_flags row_A]"
  by (simp add: curate_keep_first key_cols_def row_A_def with_flags_def telemetry.defs
      curated.defs flag_result_def flagged_fields_def range_checks_def out_of_range_def
      default_TelemetryConstraints_def)

lemma fresh_silver_table: "silver_table default_SilverJob lake_fresh = [with_flags row_A]"
  by (simp add: silver_table_def lake_fresh_def default_SilverJob_def load_set_def read_one_file
      normalize_sample process_keys_sample curate_one)

lemma fresh_silver:
  "SilverJob_run default_SilverJob Written lake_fresh =
     (Inr ''data_lake/silver'',
      lake_fresh\<lparr>silver :=
          Some [(''sim_run_id=SIM-A/farm_id=F001/date=2026-01-05/part-0.parquet'', [with_flags row_A])],
        state_files := [''silver_processed_hours'' \<mapsto> {''SIM-A|F001|2026-01-05T00:00:00Z''}]\<rparr>)"
  by (simp add: SilverJob_run_def lake_fresh_def default_SilverJob_def load_set_def save_set_def
      process_keys_sample normalize_sample curate_one write_to_dataset_def write_one_file
      partitions_sample read_one_file Let_def)

lemma row_later_fields:
  "telemetry.sim_run_id (with_flags row_later) = ''SIM-A''"
  "telemetry.farm_id (with_flags row_later) = ''F001''"
  "telemetry.turbine_id (with_flags row_later) = ''T001''"
  "event_time (with_flags row_later) = 1767571260000000000"
  by (simp_all add: with_flags_def row_later_def row_A_def telemetry.defs)

lemma agg_sample:
  "hourly_energy_agg 60 [with_flags row_later] =
     [hourly_energy_group 60 (''SIM-A'', ''F001'', ''T001'', 1767571200000000000) [with_flags row_later]]"
  "farm_kpis_agg 60 2000 60 [with_flags row_later] =
     [farm_kpis_group 60 2000 60 (''SIM-A'', ''F001'', 1767571200000000000) [with_flags row_later]]"
  by (simp_all add: hourly_energy_agg_def farm_kpis_agg_def groupby_def row_later_fields
      hour_floor_sample)

lemma agg_keys_sample:
  "hourly_energy.process_key (hourly_energy_group 60 (''SIM-A'', ''F001'', ''T001'', 1767571200000000000) g)
     = ''SIM-A|F001|2026-01-05T00:00:00Z''"
  "farm_kpis.process_key (farm_kpis_group 60 2000 60 (''SIM-A'', ''F001'', 1767571200000000000) g)
     = ''SIM-A|F001|2026-01-05T00:00:00Z''"
  "hourly_energy_partition (hourly_energy_group 60 (''SIM-A'', ''F001'', ''T001'', 1767571200000000000) g)
     = ''sim_run_id=SIM-A/farm_id=F001/date=2026-01-05/''"
  "farm_kpis_partition (farm_kpis_group 60 2000 60 (''SIM-A'', ''F001'', 1767571200000000000) g)
     = ''sim_run_id=SIM-A/farm_id=F001/date=2026-01-05/''"
  by (simp_all add: hourly_energy_group_def farm_kpis_group_def Let_def hour_key_sample date_sample
      hourly_energy_partition_def farm_kpis_partition_def hive_dir_def)

lemma fresh_gold_tables:
  "hourly_energy_table default_GoldJob 60 lake_fresh =
     [hourly_energy_group 60 (''SIM-A'', ''F001'', ''T001'', 1767571200000000000) [with_flags row_later]]"
  "farm_kpis_table 60 2000 lake_fresh =
     [farm_kpis_group 60 2000 60 (''SIM-A'', ''F001'', 1767571200000000000) [with_flags row_later]]"
  by (simp_all add: hourly_energy_table_def farm_kpis_table_def lake_fresh_def default_GoldJob_def
      load_set_def read_one_file py_int_def agg_sample agg_keys_sample)

lemma fresh_gold:
  "state_files (snd (GoldJob_run_hourly_energy default_GoldJob 60 Written lake_fresh))
     = [''gold_processed_hours'' \<mapsto> {''SIM-A|F001|2026-01-05T00:00:00Z''}]"
  "state_files (snd (GoldJob_run_farm_kpis default_GoldJob 60 2000 Written lake_fresh))
     = [''gold_farm_kpis_processed_hours'' \<mapsto> {''SIM-A|F001|2026-01-05T00:00:00Z''}]"
  by (simp_all add: GoldJob_run_hourly_energy_def GoldJob_run_farm_kpis_def lake_fresh_def
      default_GoldJob_def load_set_def save_set_def write_to_dataset_def Let_def
      py_div_def py_int_def read_one_file agg_sample agg_keys_sample)

theorem processed_set_after_persist_witness:
  "\<not> isl (fst (SilverJob_run default_SilverJob (WriteFails 0) lake_quiet))
   \<and> \<not> isl (fst (GoldJob_run_hourly_energy default_GoldJob 60 (WriteFails 0) lake_quiet))
   \<and> \<not> isl (fst (GoldJob_run_farm_kpis default_GoldJob 60 2000 (WriteFails 0) lake_quiet))
   \<and> snd (SilverJob_run default_SilverJob (WriteFails 0) lake_quiet) = lake_quiet
   \<and> snd (GoldJob_run_hourly_energy default_GoldJob 60 (WriteFails 0) lake_quiet)
       = lake_quiet\<lparr>gold_hourly_energy := mkdir (gold_hourly_energy lake_quiet)\<rparr>
   \<and> snd (GoldJob_run_farm_kpis default_GoldJob 60 2000 (WriteFails 0) lake_quiet)
       = lake_quiet\<lparr>gold_farm_kpis := mkdir (gold_farm_kpis lake_quiet)\<rparr>
   \<and> state_files (snd (GoldJob_run_hourly_energy default_GoldJob 60 (WriteFails 0) lake_quiet)) = state_files lake_quiet
   \<and> state_files (snd (SilverJob_run default_SilverJob Written lake_fresh)) \<noteq> state_files lake_fresh
   \<and> state_files (snd (GoldJob_run_hourly_energy default_GoldJob 60 Written lake_fresh)) \<noteq> state_files lake_fresh
   \<and> state_files (snd (GoldJob_run_farm_kpis default_GoldJob 60 2000 Written lake_fresh)) \<noteq> state_files lake_fresh
   \<and> silver lake_fresh =
       Some [(''sim_run_id=SIM-A/farm_id=F001/date=2026-01-05/part-0.parquet'', [with_flags row_later])]
   \<and> silver (snd (SilverJob_run default_SilverJob Written lake_fresh)) =
       Some [(''sim_run_id=SIM-A/farm_id=F001/date=2026-01-05/part-0.parquet'', [with_flags row_A])]
   \<and> map_of (files_of (silver (snd (SilverJob_run default_SilverJob Written lake_fresh))))
       (''sim_run_id=SIM-A/farm_id=F001/date=2026-01-05/part-0.parquet'') = Some [with_flags row_A]
   \<and> set [with_flags row_A]
       \<subseteq> set (read_dataset (silver (snd (SilverJob_run default_SilverJob Written lake_fresh))))
   \<and> gold_hourly_energy (snd (GoldJob_run_hourly_energy default_GoldJob 60 Written lake_fresh)) =
       Some [(''sim_run_id=SIM-A/farm_id=F001/date=2026-01-05/part-0.parquet'',
              hourly_energy_table default_GoldJob 60 lake_fresh)]
   \<and> set (hourly_energy_table default_GoldJob 60 lake_fresh)
       \<subseteq> set (read_dataset (gold_hourly_energy (snd (GoldJob_run_hourly_energy default_GoldJob 60 Written lake_fresh))))
   \<and> gold_farm_kpis (snd (GoldJob_run_farm_kpis default_GoldJob 60 2000 Written lake_fresh)) =
       Some [(''sim_run_id=SIM-A/farm_id=F001/date=2026-01-05/part-0.parquet'',
              farm_kpis_table 60 2000 lake_fresh)]
   \<and> set (farm_kpis_table 60 2000 lake_fresh)
       \<subseteq> set (read_dataset (gold_farm_kpis (snd (GoldJob_run_farm_kpis default_GoldJob 60 2000 Written lake_fresh))))"
proof -
  have ne: "[''silver_processed_hours'' \<mapsto> {''SIM-A|F001|2026-01-05T00:00:00Z''}] \<noteq> Map.empty"
    "[''gold_processed_hours'' \<mapsto> {''SIM-A|F001|2026-01-05T00:00:00Z''}] \<noteq> Map.empty"
    "[''gold_farm_kpis_processed_hours'' \<mapsto> {''SIM-A|F001|2026-01-05T00:00:00Z''}] \<noteq> Map.empty"
    by simp_all
  have e: "state_files lake_fresh = Map.empty"
    "silver lake_fresh =
       Some [(''sim_run_id=SIM-A/farm_id=F001/date=2026-01-05/part-0.parquet'', [with_flags row_later])]"
    "gold_hourly_energy lake_fresh = None" "gold_farm_kpis lake_fresh = None"
    by (simp_all add: lake_fresh_def)
  have changed:
    "state_files (snd (SilverJob_run default_SilverJob Written lake_fresh)) \<noteq> state_files lake_fresh"
    "state_files (snd (GoldJob_run_hourly_energy default_GoldJob 60 Written lake_fresh)) \<noteq> state_files lake_fresh"
    "state_files (snd (GoldJob_run_farm_kpis default_GoldJob 60 2000 Written lake_fresh)) \<noteq> state_files lake_fresh"
    unfolding fresh_silver fresh_gold e using ne by simp_all
  have quiet: "\<not> isl (fst (SilverJob_run default_SilverJob (WriteFails 0) lake_quiet))"
    "\<not> isl (fst (GoldJob_run_hourly_energy default_GoldJob 60 (WriteFails 0) lake_quiet))"
    "\<not> isl (fst (GoldJob_run_farm_kpis default_GoldJob 60 2000 (WriteFails 0) lake_quiet))"
    by (simp_all add: quiet_runs)
  have q: "snd (SilverJob_run default_SilverJob (WriteFails 0) lake_quiet) = lake_quiet
    \<and> snd (GoldJob_run_hourly_energy default_GoldJob 60 (WriteFails 0) lake_quiet)
       = lake_quiet\<lparr>gold_hourly_energy := mkdir (gold_hourly_energy lake_quiet)\<rparr>
    \<and> snd (GoldJob_run_farm_kpis default_GoldJob 60 2000 (WriteFails 0) lake_quiet)
       = lake_quiet\<lparr>gold_farm_kpis := mkdir (gold_farm_kpis lake_quiet)\<rparr>
    \<and> state_files (snd (GoldJob_run_hourly_energy default_GoldJob 60 (WriteFails 0) lake_quiet)) = state_files lake_quiet"
    using quiet
      processed_set_after_persist [of default_SilverJob 0 lake_quiet default_GoldJob 60 2000 Written]
    by blast
  have f: "silver (snd (SilverJob_run default_SilverJob Written lake_fresh)) =
            Some (write_files silver_partition ''part-0.parquet'' (silver_table default_SilverJob lake_fresh)
                    (files_of (silver lake_fresh)))
     \<and> (\<forall>r \<in> set (silver_table default_SilverJob lake_fresh).
              map_of (files_of (silver (snd (SilverJob_run default_SilverJob Written lake_fresh))))
                (silver_partition r @ ''part-0.parquet'')
                = Some (filter (\<lambda>x. silver_partition x = silver_partition r) (silver_table default_SilverJob lake_fresh)))
     \<and> set (silver_table default_SilverJob lake_fresh)
          \<subseteq> set (read_dataset (silver (snd (SilverJob_run default_SilverJob Written lake_fresh))))
     \<and> gold_hourly_energy (snd (GoldJob_run_hourly_energy default_GoldJob 60 Written lake_fresh)) =
            Some (write_files hourly_energy_partition ''part-0.parquet'' (hourly_energy_table default_GoldJob 60 lake_fresh)
                    (files_of (gold_hourly_energy lake_fresh)))
     \<and> set (hourly_energy_table default_GoldJob 60 lake_fresh)
          \<subseteq> set (read_dataset (gold_hourly_energy (snd (GoldJob_run_hourly_energy default_GoldJob 60 Written lake_fresh))))
     \<and> gold_farm_kpis (snd (GoldJob_run_farm_kpis default_GoldJob 60 2000 Written lake_fresh)) =
            Some (write_files farm_kpis_partition ''part-0.parquet'' (farm_kpis_table 60 2000 lake_fresh)
                    (files_of (gold_farm_kpis lake_fresh)))
     \<and> set (farm_kpis_table 60 2000 lake_fresh)
          \<subseteq> set (read_dataset (gold_farm_kpis (snd (GoldJob_run_farm_kpis default_GoldJob 60 2000 Written lake_fresh))))"
    using changed
      processed_set_after_persist [of default_SilverJob 0 lake_fresh default_GoldJob 60 2000 Written]
    by blast
  have w1: "write_files silver_partition ''part-0.parquet'' (silver_table default_SilverJob lake_fresh)
              (files_of (silver lake_fresh))
            = [(''sim_run_id=SIM-A/farm_id=F001/date=2026-01-05/part-0.parquet'', [with_flags row_A])]"
    by (simp add: fresh_silver_table write_one_file partitions_sample e)
  have w2: "write_files hourly_energy_partition ''part-0.parquet'' (hourly_energy_table default_GoldJob 60 lake_fresh)
              (files_of (gold_hourly_energy lake_fresh))
            = [(''sim_run_id=SIM-A/farm_id=F001/date=2026-01-05/part-0.parquet'',
                hourly_energy_table default_GoldJob 60 lake_fresh)]"
    by (simp add: fresh_gold_tables write_one_file agg_keys_sample e files_of_def)
  have w3: "write_files farm_kpis_partition ''part-0.parquet'' (farm_kpis_table 60 2000 lake_fresh)
              (files_of (gold_farm_kpis lake_fresh))
            = [(''sim_run_id=SIM-A/farm_id=F001/date=2026-01-05/part-0.parquet'',
                farm_kpis_table 60 2000 lake_fresh)]"
    by (simp add: fresh_gold_tables write_one_file agg_keys_sample e files_of_def)
  from f have s1: "silver (snd (SilverJob_run default_SilverJob Written lake_fresh)) =
       Some [(''sim_run_id=SIM-A/farm_id=F001/date=2026-01-05/part-0.parquet'', [with_flags row_A])]"
    unfolding w1 by blast
  from f have s2: "\<forall>r \<in> set [with_flags row_A].
              map_of (files_of (silver (snd (SilverJob_run default_SilverJob Written lake_fresh))))
                (silver_partition r @ ''part-0.parquet'')
                = Some (filter (\<lambda>x. silver_partition x = silver_partition r) [with_flags row_A])"
    unfolding fresh_silver_table by blast
  then have m: "map_of (files_of (silver (snd (SilverJob_run default_SilverJob Written lake_fresh))))
       (''sim_run_id=SIM-A/farm_id=F001/date=2026-01-05/part-0.parquet'') = Some [with_flags row_A]"
    by (simp add: partitions_sample)
  from f have s3: "set [with_flags row_A]
       \<subseteq> set (read_dataset (silver (snd (SilverJob_run default_SilverJob Written lake_fresh))))"
    unfolding fresh_silver_table by blast
  from f have g1: "gold_hourly_energy (snd (GoldJob_run_hourly_energy default_GoldJob 60 Written lake_fresh)) =
       Some [(''sim_run_id=SIM-A/farm_id=F001/date=2026-01-05/part-0.parquet'',
              hourly_energy_table default_GoldJob 60 lake_fresh)]"
    unfolding w2 by blast
  from f have g2: "set (hourly_energy_table default_GoldJob 60 lake_fresh)
       \<subseteq> set (read_dataset (gold_hourly_energy (snd (GoldJob_run_hourly_energy default_GoldJob 60 Written lake_fresh))))"
    by blast
  from f have k1: "gold_farm_kpis (snd (GoldJob_run_farm_kpis default_GoldJob 60 2000 Written lake_fresh)) =
       Some [(''sim_run_id=SIM-A/farm_id=F001/date=2026-01-05/part-0.parquet'',
              farm_kpis_table 60 2000 lake_fresh)]"
    unfolding w3 by blast
  from f have k2: "set (farm_kpis_table 60 2000 lake_fresh)
       \<subseteq> set (read_dataset (gold_farm_kpis (snd (GoldJob_run_farm_kpis default_GoldJob 60 2000 Written lake_fresh))))"
    by blast
  from changed quiet q e(2) s1 m s3 g1 g2 k1 k2 show ?thesis
    by blast
qed

section \<open>Raw ingest\<close>

lemma required_in_contract: "set required \<subseteq> set telemetry_cols"
  by (simp add: required_def telemetry_cols_def)

lemma filter_absent_empty: "filter (\<lambda>c. c \<notin> set cs) xs = [] \<longleftrightarrow> set xs \<subseteq> set cs"
  by (auto simp: filter_empty_conv)

lemma bronze_write_empty:
  "frame_empty df \<Longrightarrow>
   BronzeWriter_write self u df w lk = (Inl (ValueError ''BronzeWriter received empty dataframe''), lk)"
  by (simp add: BronzeWriter_write_def)

lemma bronze_write_missing:
  assumes "\<not> frame_empty df" and "\<not> set required \<subseteq> set (columns df)"
  shows "BronzeWriter_write self u df w lk =
           (Inl (ValueError (''Missing required columns: ''
                   @ py_repr_list (sort (filter (\<lambda>c. c \<notin> set (columns df)) required)))), lk)"
  using assms by (simp add: BronzeWriter_write_def Let_def filter_absent_empty)

lemma bronze_write_accepts:
  assumes "\<not> frame_empty df" and "set telemetry_cols \<subseteq> set (columns df)"
  shows "BronzeWriter_write self u df w lk =
           (fst (write_to_dataset w bronze_partition (''part-'' @ u @ ''-0.parquet'')
                   (map normalize_timestamps (data df)) (mkdir (bronze lk))),
            lk\<lparr>bronze := snd (write_to_dataset w bronze_partition (''part-'' @ u @ ''-0.parquet'')
                             (map normalize_timestamps (data df)) (mkdir (bronze lk)))\<rparr>)"
proof -
  have "set required \<subseteq> set (columns df)"
    using required_in_contract assms(2) by blast
  then show ?thesis
    using assms by (simp add: BronzeWriter_write_def Let_def filter_absent_empty split_def)
qed

lemma bronze_write_changes:
  assumes "snd (BronzeWriter_write self u df w lk) \<noteq> lk"
  shows "\<not> frame_empty df \<and> set required \<subseteq> set (columns df) \<and> set telemetry_cols \<subseteq> set (columns df)"
  using assms
  by (auto simp: BronzeWriter_write_def Let_def filter_absent_empty split: if_splits)

lemma bronze_write_written:
  assumes "\<not> frame_empty df" and "set telemetry_cols \<subseteq> set (columns df)"
  shows "BronzeWriter_write self u df Written lk =
           (Inr (), lk\<lparr>bronze := Some (write_files bronze_partition (''part-'' @ u @ ''-0.parquet'')
                                      (map normalize_timestamps (data df)) (files_of (bronze lk)))\<rparr>)"
  unfolding bronze_write_accepts [OF assms]
  by (simp add: write_to_dataset_def)

text \<open>
  C9. \<open>BronzeWriter.write\<close> raises the input error, and leaves the lake as it was, when
  the frame is empty and when it lacks one of the required columns event_time, farm_id,
  sim_run_id, ingest_time. For a frame that is not empty and has every column of the raw
  schema the result is never that input error, and when the store accepts the write the
  normalized rows are written to the raw dataset, in the files named by the call's uuid;
  a read then returns every one of them, and when no file of that name was there the
  write is an append: a read returns the rows read before and the rows written. The lake
  changes only after both checks have passed.
\<close>

theorem bronze_write_contract:
  "(frame_empty df \<longrightarrow>
      BronzeWriter_write self u df w lk = (Inl (ValueError ''BronzeWriter received empty dataframe''), lk))
   \<and> (\<not> frame_empty df \<and> \<not> set required \<subseteq> set (columns df) \<longrightarrow>
        BronzeWriter_write self u df w lk =
          (Inl (ValueError (''Missing required columns: ''
                  @ py_repr_list (sort (filter (\<lambda>c. c \<notin> set (columns df)) required)))), lk))
   \<and> (\<not> frame_empty df \<and> set telemetry_cols \<subseteq> set (columns df) \<longrightarrow>
        (\<forall>msg. fst (BronzeWriter_write self u df w lk) \<noteq> Inl (ValueError msg))
        \<and> (w = Written \<longrightarrow>
             BronzeWriter_write self u df w lk =
               (Inr (), lk\<lparr>bronze := Some (write_files bronze_partition (''part-'' @ u @ ''-0.parquet'')
                                          (map normalize_timestamps (data df)) (files_of (bronze lk)))\<rparr>)
             \<and> set (map normalize_timestamps (data df))
                 \<subseteq> set (read_dataset (bronze (snd (BronzeWriter_write self u df w lk))))
             \<and> ((\<forall>r \<in> set (map normalize_timestamps (data df)).
                     bronze_partition r @ ''part-'' @ u @ ''-0.parquet'' \<notin> fst ` set (files_of (bronze lk))) \<longrightarrow>
                  mset (read_dataset (bronze (snd (BronzeWriter_write self u df w lk))))
                    = mset (read_dataset (bronze lk)) + mset (map normalize_timestamps (data df)))))
   \<and> (snd (BronzeWriter_write self u df w lk) \<noteq> lk \<longrightarrow>
        \<not> frame_empty df \<and> set required \<subseteq> set (columns df) \<and> set telemetry_cols \<subseteq> set (columns df))"
proof -
  let ?table = "map normalize_timestamps (data df)"
  let ?base = "''part-'' @ u @ ''-0.parquet''"
  have c: "\<not> frame_empty df \<and> set telemetry_cols \<subseteq> set (columns df) \<longrightarrow>
        (\<forall>msg. fst (BronzeWriter_write self u df w lk) \<noteq> Inl (ValueError msg))
        \<and> (w = Written \<longrightarrow>
             BronzeWriter_write self u df w lk =
               (Inr (), lk\<lparr>bronze := Some (write_files bronze_partition ?base ?table (files_of (bronze lk)))\<rparr>)
             \<and> set ?table \<subseteq> set (read_dataset (bronze (snd (BronzeWriter_write self u df w lk))))
             \<and> ((\<forall>r \<in> set ?table. bronze_partition r @ ?base \<notin> fst ` set (files_of (bronze lk))) \<longrightarrow>
                  mset (read_dataset (bronze (snd (BronzeWriter_write self u df w lk))))
                    = mset (read_dataset (bronze lk)) + mset ?table))"
  proof (intro impI, elim conjE)
    assume a: "\<not> frame_empty df" "set telemetry_cols \<subseteq> set (columns df)"
    have 1: "\<forall>msg. fst (BronzeWriter_write self u df w lk) \<noteq> Inl (ValueError msg)"
      unfolding bronze_write_accepts [OF a]
      by (cases w) (simp_all add: write_to_dataset_def)
    have 2: "set ?table \<subseteq> set (read_dataset (bronze (snd (BronzeWriter_write self u df Written lk))))"
      unfolding bronze_write_written [OF a]
      using write_files_readable [of ?table bronze_partition ?base "files_of (bronze lk)"]
      by simp
    have r: "read_dataset (Some (files_of (bronze lk))) = read_dataset (bronze lk)"
      by (simp add: read_dataset_def)
    have 3: "mset (read_dataset (bronze (snd (BronzeWriter_write self u df Written lk))))
                    = mset (read_dataset (bronze lk)) + mset ?table"
      if "\<forall>r \<in> set ?table. bronze_partition r @ ?base \<notin> fst ` set (files_of (bronze lk))"
      unfolding bronze_write_written [OF a]
      using write_files_append [OF that] by (simp add: r)
    show "(\<forall>msg. fst (BronzeWriter_write self u df w lk) \<noteq> Inl (ValueError msg))
        \<and> (w = Written \<longrightarrow>
             BronzeWriter_write self u df w lk =
               (Inr (), lk\<lparr>bronze := Some (write_files bronze_partition ?base ?table (files_of (bronze lk)))\<rparr>)
             \<and> set ?table \<subseteq> set (read_dataset (bronze (snd (BronzeWriter_write self u df w lk))))
             \<and> ((\<forall>r \<in> set ?table. bronze_partition r @ ?base \<notin> fst ` set (files_of (bronze lk))) \<longrightarrow>
                  mset (read_dataset (bronze (snd (BronzeWriter_write self u df w lk))))
                    = mset (read_dataset (bronze lk)) + mset ?table))"
      using 1 2 3 bronze_write_written [OF a, of self u lk] by blast
  qed
  from c bronze_write_empty [of df self u w lk] bronze_write_missing [of df self u w lk]
    bronze_write_changes [of self u df w lk]
  show ?thesis by blast
qed

theorem bronze_write_contract_witness:
  "frame_empty frame_no_rows
   \<and> BronzeWriter_write \<lparr>base_path = ''data_lake/bronze''\<rparr> sample_uuid frame_no_rows Written lake_two_runs
       = (Inl (ValueError ''BronzeWriter received empty dataframe''), lake_two_runs)
   \<and> \<not> frame_empty frame_no_ingest_time
   \<and> \<not> set required \<subseteq> set (columns frame_no_ingest_time)
   \<and> fst (BronzeWriter_write \<lparr>base_path = ''data_lake/bronze''\<rparr> sample_uuid frame_no_ingest_time Written lake_two_runs)
       = Inl (ValueError (''Missing required columns: ['' @ [CHR 0x27] @ ''ingest_time'' @ [CHR 0x27] @ '']''))
   \<and> snd (BronzeWriter_write \<lparr>base_path = ''data_lake/bronze''\<rparr> sample_uuid frame_no_ingest_time Written lake_two_runs)
       = lake_two_runs
   \<and> \<not> frame_empty frame_full
   \<and> set telemetry_cols \<subseteq> set (columns frame_full)
   \<and> BronzeWriter_write \<lparr>base_path = ''data_lake/bronze''\<rparr> sample_uuid frame_full Written lake_two_runs
       = (Inr (), lake_two_runs\<lparr>bronze :=
            Some [(file_A, [row_A]), (file_B, [row_B]),
                  (''sim_run_id=SIM-A/farm_id=F001/date=2026-01-05/hour=2026-01-05T00:00:00Z/part-7c8d9e0f1a2b4c3d8e4f5a6b7c8d9e0f-0.parquet'',
                   [row_A])]\<rparr>)
   \<and> mset (read_dataset (bronze (snd (BronzeWriter_write \<lparr>base_path = ''data_lake/bronze''\<rparr> sample_uuid
                                        frame_full Written lake_two_runs))))
       = mset [row_A, row_B, row_A]
   \<and> snd (BronzeWriter_write \<lparr>base_path = ''data_lake/bronze''\<rparr> sample_uuid frame_full Written lake_two_runs)
       \<noteq> lake_two_runs"
proof -
  let ?fC = "''sim_run_id=SIM-A/farm_id=F001/date=2026-01-05/hour=2026-01-05T00:00:00Z/part-7c8d9e0f1a2b4c3d8e4f5a6b7c8d9e0f-0.parquet''"
  let ?new = "Some [(file_A, [row_A]), (file_B, [row_B]), (?fC, [row_A])]"
  have a: "frame_empty frame_no_rows"
    by (simp add: frame_empty_def frame_no_rows_def)
  have b: "\<not> frame_empty frame_no_ingest_time" "\<not> set required \<subseteq> set (columns frame_no_ingest_time)"
    by (simp_all add: frame_empty_def frame_no_ingest_time_def required_def)
  have m: "py_repr_list (sort (filter (\<lambda>c. c \<notin> set (columns frame_no_ingest_time)) required))
             = ''['' @ [CHR 0x27] @ ''ingest_time'' @ [CHR 0x27] @ '']''"
    by (simp add: frame_no_ingest_time_def required_def py_repr_list_def)
  have "telemetry_cols \<noteq> []"
    by (simp add: telemetry_cols_def)
  then have c: "\<not> frame_empty frame_full" "set telemetry_cols \<subseteq> set (columns frame_full)"
    by (simp_all add: frame_empty_def frame_full_def)
  have t: "map normalize_timestamps (data frame_full) = [row_A]"
    by (simp add: frame_full_def normalize_sample)
  have fs: "files_of (bronze lake_two_runs) = [(file_A, [row_A]), (file_B, [row_B])]"
    by (simp add: lake_two_runs_def)
  have p: "bronze_partition row_A @ ''part-'' @ sample_uuid @ ''-0.parquet'' = ?fC"
    by (simp add: partitions_sample sample_uuid_def)
  have d0: "put_file (bronze_partition row_A @ ''part-'' @ sample_uuid @ ''-0.parquet'') [row_A]
              [(file_A, [row_A]), (file_B, [row_B])]
            = [(file_A, [row_A]), (file_B, [row_B]), (?fC, [row_A])]"
    unfolding p by (simp add: file_A_def file_B_def)
  have d: "write_files bronze_partition (''part-'' @ sample_uuid @ ''-0.parquet'')
             (map normalize_timestamps (data frame_full)) (files_of (bronze lake_two_runs))
           = [(file_A, [row_A]), (file_B, [row_B]), (?fC, [row_A])]"
    unfolding t fs write_one_file by (rule d0)
  have fresh0: "bronze_partition row_A @ ''part-'' @ sample_uuid @ ''-0.parquet''
                  \<notin> fst ` set [(file_A, [row_A]), (file_B, [row_B])]"
    unfolding p by (simp add: file_A_def file_B_def)
  have fresh: "\<forall>r \<in> set (map normalize_timestamps (data frame_full)).
      bronze_partition r @ ''part-'' @ sample_uuid @ ''-0.parquet'' \<notin> fst ` set (files_of (bronze lake_two_runs))"
    unfolding t fs using fresh0 by simp
  have e: "lake_two_runs\<lparr>bronze := ?new\<rparr> \<noteq> lake_two_runs"
  proof
    assume "lake_two_runs\<lparr>bronze := ?new\<rparr> = lake_two_runs"
    then have "bronze (lake_two_runs\<lparr>bronze := ?new\<rparr>) = bronze lake_two_runs"
      by simp
    then show False by (simp add: lake_two_runs_def)
  qed
  let ?bw = "\<lparr>base_path = ''data_lake/bronze''\<rparr>"
  have r1: "BronzeWriter_write ?bw sample_uuid frame_no_rows Written lake_two_runs
       = (Inl (ValueError ''BronzeWriter received empty dataframe''), lake_two_runs)"
    using a bronze_write_contract [of frame_no_rows ?bw sample_uuid Written lake_two_runs] by blast
  have r2: "BronzeWriter_write ?bw sample_uuid frame_no_ingest_time Written lake_two_runs
       = (Inl (ValueError (''Missing required columns: ''
            @ py_repr_list (sort (filter (\<lambda>c. c \<notin> set (columns frame_no_ingest_time)) required)))),
          lake_two_runs)"
    using b bronze_write_contract [of frame_no_ingest_time ?bw sample_uuid Written lake_two_runs] by blast
  have r3: "BronzeWriter_write ?bw sample_uuid frame_full Written lake_two_runs
       = (Inr (), lake_two_runs\<lparr>bronze :=
            Some (write_files bronze_partition (''part-'' @ sample_uuid @ ''-0.parquet'')
                    (map normalize_timestamps (data frame_full)) (files_of (bronze lake_two_runs)))\<rparr>)"
    using c bronze_write_contract [of frame_full ?bw sample_uuid Written lake_two_runs] by blast
  have r4: "mset (read_dataset (bronze (snd (BronzeWriter_write ?bw sample_uuid frame_full Written lake_two_runs))))
              = mset (read_dataset (bronze lake_two_runs)) + mset (map normalize_timestamps (data frame_full))"
    using c fresh bronze_write_contract [of frame_full ?bw sample_uuid Written lake_two_runs] by blast
  have r5: "mset (read_dataset (bronze (snd (BronzeWriter_write ?bw sample_uuid frame_full Written lake_two_runs))))
              = mset [row_A, row_B, row_A]"
    unfolding r4 t read_two_runs by simp
  have r6: "BronzeWriter_write ?bw sample_uuid frame_full Written lake_two_runs
              = (Inr (), lake_two_runs\<lparr>bronze := ?new\<rparr>)"
    unfolding r3 d ..
  have r7: "snd (BronzeWriter_write ?bw sample_uuid frame_full Written lake_two_runs) \<noteq> lake_two_runs"
    unfolding r6 snd_conv by (rule e)
  have r8: "fst (BronzeWriter_write ?bw sample_uuid frame_no_ingest_time Written lake_two_runs)
       = Inl (ValueError (''Missing required columns: ['' @ [CHR 0x27] @ ''ingest_time'' @ [CHR 0x27] @ '']''))"
    "snd (BronzeWriter_write ?bw sample_uuid frame_no_ingest_time Written lake_two_runs) = lake_two_runs"
    unfolding r2 m by simp_all
  from a b c r1 r8 r6 r5 r7 show ?thesis
    by blast
qed

section \<open>Telemetry generator: anomaly injection\<close>

lemma telemetry_row_error:
  "telemetry_row self t turb free dir r now = Inl e \<longleftrightarrow> effective_wind self turb free dir = Inl e"
  by (simp add: telemetry_row_def effective_wind_def Let_def split_def split: sum.splits)

lemma telemetry_row_base:
  assumes "effective_wind self turb free dir = Inr v"
  shows "telemetry_row self t turb free dir None now =
     Inr \<lparr>event_time = t,
          telemetry.farm_id = WindFarm.farm_id (farm self),
          telemetry.turbine_id = Turbine.turbine_id turb,
          wind_speed_free_mps = Val free,
          wind_speed_mps = Val v,
          wind_dir_deg = Val dir,
          power_kw = Val (fst (PowerCurve_power_kw (power_curve self) v (rated_power_kw turb))),
          rotor_speed_rpm =
            Val (if snd (PowerCurve_power_kw (power_curve self) v (rated_power_kw turb)) \<noteq> ''RUNNING''
                 then 0 else 6 + (min v 12 - 3) * (12 / 9)),
          yaw_deg = Val dir,
          status = snd (PowerCurve_power_kw (power_curve self) v (rated_power_kw turb)),
          telemetry.sim_run_id = TelemetryGenerator.sim_run_id self,
          ingest_time = now,
          telemetry.source = TelemetryGenerator.source self\<rparr>"
  using assms by (simp add: telemetry_row_def effective_wind_def Let_def split_def)

lemma telemetry_row_bands:
  assumes "telemetry_row self t turb free dir None now = Inr base"
  shows "telemetry_row self t turb free dir (Some r) now =
           Inr (if r < 2 / 1000 then base\<lparr>wind_speed_mps := NaN\<rparr>
                else if r < 4 / 1000 then base\<lparr>wind_speed_mps := Val (- 5)\<rparr>
                else if r < 55 / 10000 then base\<lparr>power_kw := Val 99999\<rparr>
                else base)"
proof -
  obtain v where v: "effective_wind self turb free dir = Inr v"
    using assms telemetry_row_error [of self t turb free dir None now]
    by (cases "effective_wind self turb free dir") auto
  have b: "base = \<lparr>event_time = t,
          telemetry.farm_id = WindFarm.farm_id (farm self),
          telemetry.turbine_id = Turbine.turbine_id turb,
          wind_speed_free_mps = Val free,
          wind_speed_mps = Val v,
          wind_dir_deg = Val dir,
          power_kw = Val (fst (PowerCurve_power_kw (power_curve self) v (rated_power_kw turb))),
          rotor_speed_rpm =
            Val (if snd (PowerCurve_power_kw (power_curve self) v (rated_power_kw turb)) \<noteq> ''RUNNING''
                 then 0 else 6 + (min v 12 - 3) * (12 / 9)),
          yaw_deg = Val dir,
          status = snd (PowerCurve_power_kw (power_curve self) v (rated_power_kw turb)),
          telemetry.sim_run_id = TelemetryGenerator.sim_run_id self,
          ingest_time = now,
          telemetry.source = TelemetryGenerator.source self\<rparr>"
    using assms telemetry_row_base [OF v, of t now] by simp
  show ?thesis
    using v unfolding b
    by (simp add: telemetry_row_def effective_wind_def Let_def split_def)
qed

lemma telemetry_row_rng [simp]:
  "telemetry_row (self\<lparr>TelemetryGenerator.rng := g\<rparr>) = telemetry_row self"
  "telemetry_row (self\<lparr>wind_field := wfield\<rparr>) = telemetry_row self"
  by (intro ext, simp add: telemetry_row_def effective_wind_def Let_def split_def
        cong: sum.case_cong option.case_cong)+

lemma generate_row_inject:
  assumes "generate_row np clock start dt False step (self, out) turb = Inr (selfF, outF)"
  shows "\<exists>base. outF = out @ [base]
           \<and> generate_row np clock start dt True step (self, out) turb =
               Inr (selfF\<lparr>TelemetryGenerator.rng := snd (rng_random np (TelemetryGenerator.rng self))\<rparr>,
                    out @ [let r = fst (rng_random np (TelemetryGenerator.rng self))
                           in if r < 2 / 1000 then base\<lparr>wind_speed_mps := NaN\<rparr>
                              else if r < 4 / 1000 then base\<lparr>wind_speed_mps := Val (- 5)\<rparr>
                              else if r < 55 / 10000 then base\<lparr>power_kw := Val 99999\<rparr>
                              else base])"
proof -
  let ?w = "WindField_get_wind_at_turbine np (wind_field self) (of_int (int step * dt)) (x_m turb) (y_m turb)"
  let ?t = "start + int step * dt * 1000000000"
  let ?row = "\<lambda>r. telemetry_row self ?t turb (fst (fst ?w)) (snd (fst ?w)) r (clock (length out))"
  have f: "generate_row np clock start dt False step (self, out) turb =
             (case ?row None of Inl e \<Rightarrow> Inl e | Inr row \<Rightarrow> Inr (self\<lparr>wind_field := snd ?w\<rparr>, out @ [row]))"
    by (simp add: generate_row_def Let_def split_def cong: sum.case_cong)
  have t: "generate_row np clock start dt True step (self, out) turb =
             (case ?row (Some (fst (rng_random np (TelemetryGenerator.rng self)))) of
                Inl e \<Rightarrow> Inl e
              | Inr row \<Rightarrow>
                  Inr (self\<lparr>wind_field := snd ?w,
                            TelemetryGenerator.rng := snd (rng_random np (TelemetryGenerator.rng self))\<rparr>,
                       out @ [row]))"
    by (simp add: generate_row_def Let_def split_def cong: sum.case_cong)
  from assms f obtain base where base: "?row None = Inr base"
    and sf: "selfF = self\<lparr>wind_field := snd ?w\<rparr>" and outF: "outF = out @ [base]"
    by (cases "?row None") auto
  show ?thesis
    unfolding t telemetry_row_bands [OF base] sf outF
    by (simp add: Let_def)
qed

text \<open>
  C10. Let \<open>base\<close> be the row the loop body appends when nothing is injected. With the
  uniform draw \<open>r\<close>, the body appends \<open>base\<close> with only \<open>wind_speed_mps\<close> replaced
  by not-a-number when \<open>r < 0.002\<close>, with only \<open>wind_speed_mps\<close> replaced by -5.0 when
  \<open>0.002 \<le> r < 0.004\<close>, with only \<open>power_kw\<close> replaced by 99999.0 when
  \<open>0.004 \<le> r < 0.0055\<close>, and \<open>base\<close> itself otherwise; the power, status, rotor speed
  and yaw of \<open>base\<close> are those computed from the uncorrupted effective wind speed. No two of
  the three bands hold for the same draw. A raise of the wake model is the same raise with
  and without injection. One pass of the inner loop of \<open>generate\<close> with injection takes
  one uniform draw and appends the row so related to the row of the pass without injection.
\<close>

theorem anomaly_injection_frame:
  "(telemetry_row self t turb free dir None now = Inr base \<longrightarrow>
      (r < 2 / 1000 \<longrightarrow>
         telemetry_row self t turb free dir (Some r) now = Inr (base\<lparr>wind_speed_mps := NaN\<rparr>))
      \<and> (2 / 1000 \<le> r \<and> r < 4 / 1000 \<longrightarrow>
           telemetry_row self t turb free dir (Some r) now = Inr (base\<lparr>wind_speed_mps := Val (- 5)\<rparr>))
      \<and> (4 / 1000 \<le> r \<and> r < 55 / 10000 \<longrightarrow>
           telemetry_row self t turb free dir (Some r) now = Inr (base\<lparr>power_kw := Val 99999\<rparr>))
      \<and> (55 / 10000 \<le> r \<longrightarrow> telemetry_row self t turb free dir (Some r) now = Inr base)
      \<and> (\<exists>v. effective_wind self turb free dir = Inr v
             \<and> wind_speed_mps base = Val v
             \<and> power_kw base = Val (fst (PowerCurve_power_kw (power_curve self) v (rated_power_kw turb)))
             \<and> status base = snd (PowerCurve_power_kw (power_curve self) v (rated_power_kw turb))
             \<and> rotor_speed_rpm base =
                 Val (if status base \<noteq> ''RUNNING'' then 0 else 6 + (min v 12 - 3) * (12 / 9))
             \<and> yaw_deg base = Val dir))
   \<and> (telemetry_row self t turb free dir None now = Inl e \<longrightarrow>
        telemetry_row self t turb free dir (Some r) now = Inl e)
   \<and> \<not> (r < 2 / 1000 \<and> (2 / 1000 \<le> r \<and> r < 4 / 1000))
   \<and> \<not> (r < 2 / 1000 \<and> (4 / 1000 \<le> r \<and> r < 55 / 10000))
   \<and> \<not> ((2 / 1000 \<le> r \<and> r < 4 / 1000) \<and> (4 / 1000 \<le> r \<and> r < 55 / 10000))
   \<and> (generate_row np clock start dt False step (self, out) turb = Inr (selfF, outF) \<longrightarrow>
        (\<exists>b. outF = out @ [b]
           \<and> generate_row np clock start dt True step (self, out) turb =
               Inr (selfF\<lparr>TelemetryGenerator.rng := snd (rng_random np (TelemetryGenerator.rng self))\<rparr>,
                    out @ [let u = fst (rng_random np (TelemetryGenerator.rng self))
                           in if u < 2 / 1000 then b\<lparr>wind_speed_mps := NaN\<rparr>
                              else if u < 4 / 1000 then b\<lparr>wind_speed_mps := Val (- 5)\<rparr>
                              else if u < 55 / 10000 then b\<lparr>power_kw := Val 99999\<rparr>
                              else b])))"
proof -
  have a: "telemetry_row self t turb free dir None now = Inr base \<longrightarrow>
      (r < 2 / 1000 \<longrightarrow>
         telemetry_row self t turb free dir (Some r) now = Inr (base\<lparr>wind_speed_mps := NaN\<rparr>))
      \<and> (2 / 1000 \<le> r \<and> r < 4 / 1000 \<longrightarrow>
           telemetry_row self t turb free dir (Some r) now = Inr (base\<lparr>wind_speed_mps := Val (- 5)\<rparr>))
      \<and> (4 / 1000 \<le> r \<and> r < 55 / 10000 \<longrightarrow>
           telemetry_row self t turb free dir (Some r) now = Inr (base\<lparr>power_kw := Val 99999\<rparr>))
      \<and> (55 / 10000 \<le> r \<longrightarrow> telemetry_row self t turb free dir (Some r) now = Inr base)"
  proof
    assume "telemetry_row self t turb free dir None now = Inr base"
    from telemetry_row_bands [OF this, of r]
    show "(r < 2 / 1000 \<longrightarrow>
         telemetry_row self t turb free dir (Some r) now = Inr (base\<lparr>wind_speed_mps := NaN\<rparr>))
      \<and> (2 / 1000 \<le> r \<and> r < 4 / 1000 \<longrightarrow>
           telemetry_row self t turb free dir (Some r) now = Inr (base\<lparr>wind_speed_mps := Val (- 5)\<rparr>))
      \<and> (4 / 1000 \<le> r \<and> r < 55 / 10000 \<longrightarrow>
           telemetry_row self t turb free dir (Some r) now = Inr (base\<lparr>power_kw := Val 99999\<rparr>))
      \<and> (55 / 10000 \<le> r \<longrightarrow> telemetry_row self t turb free dir (Some r) now = Inr base)"
      by simp
  qed
  have b: "telemetry_row self t turb free dir None now = Inr base \<longrightarrow>
      (\<exists>v. effective_wind self turb free dir = Inr v
             \<and> wind_speed_mps base = Val v
             \<and> power_kw base = Val (fst (PowerCurve_power_kw (power_curve self) v (rated_power_kw turb)))
             \<and> status base = snd (PowerCurve_power_kw (power_curve self) v (rated_power_kw turb))
             \<and> rotor_speed_rpm base =
                 Val (if status base \<noteq> ''RUNNING'' then 0 else 6 + (min v 12 - 3) * (12 / 9))
             \<and> yaw_deg base = Val dir)"
  proof
    assume h: "telemetry_row self t turb free dir None now = Inr base"
    then obtain v where v: "effective_wind self turb free dir = Inr v"
      using telemetry_row_error [of self t turb free dir None now]
      by (cases "effective_wind self turb free dir") auto
    from h telemetry_row_base [OF v, of t now]
    show "\<exists>v. effective_wind self turb free dir = Inr v
             \<and> wind_speed_mps base = Val v
             \<and> power_kw base = Val (fst (PowerCurve_power_kw (power_curve self) v (rated_power_kw turb)))
             \<and> status base = snd (PowerCurve_power_kw (power_curve self) v (rated_power_kw turb))
             \<and> rotor_speed_rpm base =
                 Val (if status base \<noteq> ''RUNNING'' then 0 else 6 + (min v 12 - 3) * (12 / 9))
             \<and> yaw_deg base = Val dir"
      using v by (intro exI [of _ v]) auto
  qed
  have c: "telemetry_row self t turb free dir None now = Inl e \<longrightarrow>
        telemetry_row self t turb free dir (Some r) now = Inl e"
    by (simp add: telemetry_row_error)
  have d: "\<not> (r < 2 / 1000 \<and> (2 / 1000 \<le> r \<and> r < 4 / 1000))"
    "\<not> (r < 2 / 1000 \<and> (4 / 1000 \<le> r \<and> r < 55 / 10000))"
    "\<not> ((2 / 1000 \<le> r \<and> r < 4 / 1000) \<and> (4 / 1000 \<le> r \<and> r < 55 / 10000))"
    by auto
  from a b c d generate_row_inject [of np clock start dt step self out turb selfF outF]
  show ?thesis by blast
qed

lemma sample_row_eval:
  "telemetry_row sample_generator 0 T001 8 220 None 5 = Inr sample_row"
  by (simp add: telemetry_row_def effective_wind_def sample_generator_def sample_row_def T001_def
      PowerCurve_power_kw_def default_PowerCurve_def Let_def power3_eq_cube)

lemma zero_width_eval:
  "telemetry_row zero_width_generator 0 T002 8 0 None 5 = Inl ZeroDivisionError"
  by (simp add: telemetry_row_def effective_wind_def zero_width_generator_def sample_generator_def
      T001_def T002_def WakeModel_effective_speed_def unit_vector_from_direction_deg_def wake_body_def py_div_def Let_def)

lemma wind_eval:
  "WindField_get_wind_at_turbine counting_numpy (wind_field sample_generator) 0 0 0 =
     ((8, 220), (wind_field sample_generator)\<lparr>WindField.rng := 2\<rparr>)"
  by (simp add: WindField_get_wind_at_turbine_def counting_numpy_def sample_generator_def py_mod_def
      Let_def numeral_2_eq_2)

lemma generate_row_eval:
  "generate_row counting_numpy fixed_clock 0 60 False 0 (sample_generator, []) T001 =
     Inr (sample_generator\<lparr>wind_field := (wind_field sample_generator)\<lparr>WindField.rng := 2\<rparr>\<rparr>, [sample_row])"
proof -
  have xy: "x_m T001 = 0" "y_m T001 = 0"
    by (simp_all add: T001_def)
  show ?thesis
    by (simp add: generate_row_def xy wind_eval fixed_clock_def sample_row_eval Let_def)
qed

theorem anomaly_injection_frame_witness:
  "telemetry_row sample_generator 0 T001 8 220 None 5 = Inr sample_row
   \<and> telemetry_row sample_generator 0 T001 8 220 (Some (1 / 1000)) 5 = Inr (sample_row\<lparr>wind_speed_mps := NaN\<rparr>)
   \<and> telemetry_row sample_generator 0 T001 8 220 (Some (3 / 1000)) 5
       = Inr (sample_row\<lparr>wind_speed_mps := Val (- 5)\<rparr>)
   \<and> telemetry_row sample_generator 0 T001 8 220 (Some (5 / 1000)) 5
       = Inr (sample_row\<lparr>power_kw := Val 99999\<rparr>)
   \<and> telemetry_row sample_generator 0 T001 8 220 (Some (1 / 100)) 5 = Inr sample_row
   \<and> telemetry_row zero_width_generator 0 T002 8 0 None 5 = Inl ZeroDivisionError
   \<and> telemetry_row zero_width_generator 0 T002 8 0 (Some (1 / 1000)) 5 = Inl ZeroDivisionError
   \<and> generate_row counting_numpy fixed_clock 0 60 False 0 (sample_generator, []) T001 =
       Inr (sample_generator\<lparr>wind_field := (wind_field sample_generator)\<lparr>WindField.rng := 2\<rparr>\<rparr>,
            [sample_row])
   \<and> generate_row counting_numpy fixed_clock 0 60 True 0 (sample_generator, []) T001 =
       Inr (sample_generator\<lparr>wind_field := (wind_field sample_generator)\<lparr>WindField.rng := 2\<rparr>,
                             TelemetryGenerator.rng := 1\<rparr>,
            [sample_row\<lparr>wind_speed_mps := NaN\<rparr>])"
proof -
  note base = sample_row_eval
  have r1: "telemetry_row sample_generator 0 T001 8 220 (Some (1 / 1000)) 5
              = Inr (sample_row\<lparr>wind_speed_mps := NaN\<rparr>)"
    using base anomaly_injection_frame [where self = sample_generator and t = 0 and turb = T001 and free = 8
        and dir = 220 and now = 5 and base = sample_row and r = "1 / 1000"]
    by simp
  have r2: "telemetry_row sample_generator 0 T001 8 220 (Some (3 / 1000)) 5
              = Inr (sample_row\<lparr>wind_speed_mps := Val (- 5)\<rparr>)"
    using base anomaly_injection_frame [where self = sample_generator and t = 0 and turb = T001 and free = 8
        and dir = 220 and now = 5 and base = sample_row and r = "3 / 1000"]
    by simp
  have r3: "telemetry_row sample_generator 0 T001 8 220 (Some (5 / 1000)) 5
              = Inr (sample_row\<lparr>power_kw := Val 99999\<rparr>)"
    using base anomaly_injection_frame [where self = sample_generator and t = 0 and turb = T001 and free = 8
        and dir = 220 and now = 5 and base = sample_row and r = "5 / 1000"]
    by simp
  have r4: "telemetry_row sample_generator 0 T001 8 220 (Some (1 / 100)) 5 = Inr sample_row"
    using base anomaly_injection_frame [where self = sample_generator and t = 0 and turb = T001 and free = 8
        and dir = 220 and now = 5 and base = sample_row and r = "1 / 100"]
    by simp
  have r5: "telemetry_row zero_width_generator 0 T002 8 0 (Some (1 / 1000)) 5 = Inl ZeroDivisionError"
    using zero_width_eval
      anomaly_injection_frame [where self = zero_width_generator and t = 0 and turb = T002 and free = 8
        and dir = 0 and now = 5 and e = ZeroDivisionError and r = "1 / 1000"]
    by blast
  have u: "rng_random counting_numpy (TelemetryGenerator.rng sample_generator) = (1 / 1000, 1)"
    by (simp add: counting_numpy_def sample_generator_def)
  have r6: "generate_row counting_numpy fixed_clock 0 60 True 0 (sample_generator, []) T001 =
       Inr (sample_generator\<lparr>wind_field := (wind_field sample_generator)\<lparr>WindField.rng := 2\<rparr>,
                             TelemetryGenerator.rng := 1\<rparr>,
            [sample_row\<lparr>wind_speed_mps := NaN\<rparr>])"
    using generate_row_eval
      anomaly_injection_frame [where np = counting_numpy and clock = fixed_clock and start = 0
        and dt = 60 and step = 0 and self = sample_generator and out = "[]" and turb = T001
        and selfF = "sample_generator\<lparr>wind_field := (wind_field sample_generator)\<lparr>WindField.rng := 2\<rparr>\<rparr>"
        and outF = "[sample_row]"]
    unfolding u by (simp add: Let_def)
  from base r1 r2 r3 r4 zero_width_eval r5 generate_row_eval r6 show ?thesis
    by blast
qed

section \<open>Reruns of the curation stage that are no-ops\<close>

text \<open>
  A run that finds the bucket of every raw row in the processed-set returns the output
  location and leaves the lake as it was.
\<close>

lemma silver_run_noop:
  assumes "bronze lk \<noteq> None" and "read_dataset (bronze lk) \<noteq> []"
    and "\<forall>r \<in> set (read_dataset (bronze lk)).
           process_key_of (normalize_timestamps r) \<in> load_set lk (SilverJob.state_name self)"
  shows "SilverJob_run self w lk = (Inr (SilverJob.silver_path self), lk)"
proof -
  have "filter (\<lambda>r. process_key_of r \<notin> load_set lk (SilverJob.state_name self))
          (map normalize_timestamps (read_dataset (bronze lk))) = []"
    using assms(3) by (simp add: filter_empty_conv)
  then show ?thesis
    using assms(1,2) by (simp add: SilverJob_run_def Let_def)
qed

text \<open>
  If a first run returns, and every bucket of a raw row was already recorded or kept a row
  in the table written, then a second run on the same raw data is such a no-op.
\<close>

lemma silver_rerun_noop:
  assumes first: "SilverJob_run self Written lk = (Inr p, lk1)"
    and cover: "\<forall>r \<in> set (read_dataset (bronze lk)).
                  process_key_of (normalize_timestamps r) \<in> load_set lk (SilverJob.state_name self)
                  \<or> process_key_of (normalize_timestamps r) \<in> set (map process_key_of (silver_table self lk))"
  shows "SilverJob_run self w lk1 = (Inr (SilverJob.silver_path self), lk1)"
proof -
  let ?name = "SilverJob.state_name self"
  let ?df = "read_dataset (bronze lk)"
  let ?new = "filter (\<lambda>r. process_key_of r \<notin> load_set lk ?name) (map normalize_timestamps ?df)"
  from first have df: "bronze lk \<noteq> None" "?df \<noteq> []"
    by (auto simp: SilverJob_run_def split: if_splits)
  show ?thesis
  proof (cases "?new = []")
    case True
    then have "SilverJob_run self Written lk = (Inr (SilverJob.silver_path self), lk)"
      using df by (simp add: SilverJob_run_def Let_def)
    with first have "lk1 = lk" by simp
    moreover have "\<forall>r \<in> set ?df. process_key_of (normalize_timestamps r) \<in> load_set lk ?name"
      using True by (simp add: filter_empty_conv)
    ultimately show ?thesis
      using silver_run_noop [OF df] by simp
  next
    case False
    have t: "silver_table self lk = curate (constraints self) ?new"
      by (simp only: silver_table_def)
    have "SilverJob_run self Written lk =
             (Inr (SilverJob.silver_path self),
              save_set ?name (load_set lk ?name \<union> set (map process_key_of (silver_table self lk)))
                (lk\<lparr>silver := Some (write_files silver_partition ''part-0.parquet'' (silver_table self lk)
                                      (files_of (silver lk)))\<rparr>))"
      using df False
      by (simp add: SilverJob_run_def Let_def write_to_dataset_def t)
    with first have lk1: "lk1 = save_set ?name (load_set lk ?name \<union> set (map process_key_of (silver_table self lk)))
                (lk\<lparr>silver := Some (write_files silver_partition ''part-0.parquet'' (silver_table self lk)
                                      (files_of (silver lk)))\<rparr>)"
      by simp
    have b1: "bronze lk1 = bronze lk"
      by (simp add: lk1 save_set_def)
    have "load_set lk1 ?name = load_set lk ?name \<union> set (map process_key_of (silver_table self lk))"
      by (simp add: lk1 save_set_def load_set_def)
    then have "\<forall>r \<in> set (read_dataset (bronze lk1)).
                 process_key_of (normalize_timestamps r) \<in> load_set lk1 ?name"
      using cover unfolding b1 by blast
    with df show ?thesis
      unfolding b1 [symmetric] by (intro silver_run_noop)
  qed
qed

end
